theory Spec2Isabelle
  imports Complex_Main "HOL-Library.AList"
begin

section \<open>Data model\<close>

text \<open>
  The orchestration service of \<^verbatim>\<open>core/services/document_service.py\<close>, with the
  MongoDB metadata store of \<^verbatim>\<open>core/database/mongo_database.py\<close>. A Python
  \<^verbatim>\<open>Dict[str, Any]\<close> is an association list (insertion order kept, values kept as
  strings), \<^verbatim>\<open>bytes\<close> is a character list, a \<^verbatim>\<open>float\<close> is a real number (the
  service only compares scores; it does no arithmetic on them).
\<close>

type_synonym pydict = "(string \<times> string) list"
type_synonym bytes = string
type_synonym embedding = "real list"

text \<open>Exceptions are values; \<open>Inl\<close> of one is a raise.\<close>

datatype exn =
    PermissionError string
  | ValueError string
  | AttributeError string
  | Exception string
  | TypeError string
  | PyMongoError string
  | FileNotFoundError string

datatype EntityType = USER | DEVELOPER

text \<open>
  \<^verbatim>\<open>core/models/auth.py\<close> declares the single field \<^verbatim>\<open>user_id\<close>, which the MongoDB
  store reads. The service also reads \<^verbatim>\<open>auth.permissions\<close>, \<^verbatim>\<open>auth.entity_type\<close>
  and \<^verbatim>\<open>auth.entity_id\<close>, which the class does not declare: reading an attribute an
  object lacks raises \<^verbatim>\<open>AttributeError\<close>. These three are therefore optional here,
  \<open>None\<close> standing for an object without the attribute (every instance of the class
  as declared), \<open>Some v\<close> for an object that carries it.
\<close>

record AuthContext =
  user_id :: string
  entity_type :: "EntityType option"
  entity_id :: "string option"
  permissions :: "string set option"

text \<open>
  Modelled from the spec: the classes \<^verbatim>\<open>Chunk\<close>, \<^verbatim>\<open>DocumentChunk\<close>, \<^verbatim>\<open>Document\<close>
  and \<^verbatim>\<open>ChunkResult\<close> of \<^verbatim>\<open>core/models\<close> are not among the sources; the fields
  are those the service reads and writes.
\<close>

record Chunk =
  content :: string
  chunk_metadata :: pydict

record DocumentChunk =
  document_id :: string
  dc_content :: string
  dc_embedding :: embedding
  chunk_number :: int
  dc_metadata :: pydict
  score :: real

record Document =
  external_id :: string
  content_type :: string
  filename :: "string option"
  metadata :: pydict
  owner :: "EntityType \<times> string"
  readers :: "string list"
  writers :: "string list"
  admins :: "string list"
  system_metadata :: pydict
  additional_metadata :: pydict
  storage_info :: "(string \<times> string) option"
  chunk_ids :: "string list"

record ChunkResult =
  cr_content :: string
  cr_score :: real
  cr_document_id :: string
  cr_chunk_number :: int
  cr_metadata :: pydict
  cr_content_type :: string
  cr_filename :: "string option"
  cr_download_url :: "string option"

text \<open>
  Modelled from the spec: \<^verbatim>\<open>Chunk.to_document_chunk\<close> is not among the sources; it
  builds the chunk of a document from the text chunk, its number, its embedding and the
  document id. The score is set at query time only.
\<close>

definition to_document_chunk :: "Chunk \<Rightarrow> int \<Rightarrow> embedding \<Rightarrow> string \<Rightarrow> DocumentChunk" where
  "to_document_chunk c n e d =
     \<lparr>document_id = d, dc_content = content c, dc_embedding = e, chunk_number = n,
      dc_metadata = chunk_metadata c, score = 0\<rparr>"

section \<open>Chunk objects\<close>

text \<open>
  \<^verbatim>\<open>_create_chunk_objects\<close>: \<^verbatim>\<open>enumerate(zip(embeddings, chunks))\<close>. Python's \<^verbatim>\<open>zip\<close>
  stops at the shorter argument, as \<open>zip\<close> does here.
\<close>

definition create_chunk_objects :: "string \<Rightarrow> Chunk list \<Rightarrow> embedding list \<Rightarrow> DocumentChunk list" where
  "create_chunk_objects doc_id chunks embeddings =
     map (\<lambda>(i, (e, c)). to_document_chunk c (int i) e doc_id)
         (enumerate 0 (zip embeddings chunks))"

section \<open>Collaborators\<close>

text \<open>
  Modelled from the spec: \<^verbatim>\<open>core/cache\<close> is not among the sources. A cache has a
  name, a model and its artifact, the filter it was built with, the ids of the documents
  it holds, and a serialisable primed state. The descriptor is the dictionary that
  \<^verbatim>\<open>create_cache\<close> builds; each \<^verbatim>\<open>doc.model_dump_json()\<close> is kept as the document
  it dumps.
\<close>

record Cache =
  cache_name :: string
  cache_model :: string
  cache_model_file :: string
  cache_filters :: "pydict option"
  cache_docs :: "string list"
  saveable_state :: bytes

record cache_metadata =
  cm_model :: string
  cm_model_file :: string
  cm_filters :: "pydict option"
  cm_docs :: "Document list"
  cm_bucket :: string
  cm_key :: string

text \<open>
  \<^verbatim>\<open>base64.b64encode(b).decode()\<close> is kept symbolic: \<open>B64 b\<close> is the encoding of
  \<open>b\<close>, and decoding gives \<open>b\<close> back.
\<close>

datatype base64 = B64 bytes

fun b64decode :: "base64 \<Rightarrow> bytes" where
  "b64decode (B64 b) = b"

record UploadFile =
  file_bytes :: bytes
  file_content_type :: "string option"
  file_filename :: "string option"

text \<open>
  The service holds its collaborators behind abstract base classes. Each method is a
  function of the state \<open>'w\<close> of the world outside the service (the backing stores,
  the model servers); it returns its value or the exception it raises, and the world
  after the call. The service below is defined for every implementation of them.

  \<^verbatim>\<open>delete_chunks\<close> is declared \<^verbatim>\<open>-> bool\<close>; the service compares its result with
  the chunk count by \<^verbatim>\<open>!=\<close>, under which \<^verbatim>\<open>True\<close> is 1 and \<^verbatim>\<open>False\<close> is 0: the
  result is the integer it compares as.
\<close>

record 'w BaseDatabase =
  store_document :: "Document \<Rightarrow> 'w \<Rightarrow> (exn + bool) \<times> 'w"
  get_document :: "string \<Rightarrow> AuthContext \<Rightarrow> 'w \<Rightarrow> (exn + Document option) \<times> 'w"
  delete_document :: "string \<Rightarrow> AuthContext \<Rightarrow> 'w \<Rightarrow> (exn + bool) \<times> 'w"
  find_authorized_and_filtered_documents ::
    "AuthContext \<Rightarrow> pydict option \<Rightarrow> 'w \<Rightarrow> (exn + string list) \<times> 'w"
  store_cache_metadata :: "string \<Rightarrow> cache_metadata \<Rightarrow> 'w \<Rightarrow> (exn + bool) \<times> 'w"
  get_cache_metadata :: "string \<Rightarrow> 'w \<Rightarrow> (exn + cache_metadata option) \<times> 'w"

record 'w BaseVectorStore =
  store_embeddings :: "DocumentChunk list \<Rightarrow> 'w \<Rightarrow> (exn + bool \<times> string list) \<times> 'w"
  query_similar :: "embedding \<Rightarrow> int \<Rightarrow> string list \<Rightarrow> 'w \<Rightarrow> (exn + DocumentChunk list) \<times> 'w"
  count_number_of_chunks :: "string \<Rightarrow> 'w \<Rightarrow> (exn + int) \<times> 'w"
  delete_chunks :: "string \<Rightarrow> 'w \<Rightarrow> (exn + int) \<times> 'w"

record 'w BaseStorage =
  upload_from_base64 ::
    "base64 \<Rightarrow> string \<Rightarrow> string option \<Rightarrow> string \<Rightarrow> 'w \<Rightarrow> (exn + string \<times> string) \<times> 'w"
  download_file :: "string \<Rightarrow> string \<Rightarrow> 'w \<Rightarrow> (exn + bytes) \<times> 'w"
  get_download_url :: "string \<Rightarrow> string \<Rightarrow> 'w \<Rightarrow> (exn + string) \<times> 'w"

record 'w BaseParser =
  split_text :: "string \<Rightarrow> 'w \<Rightarrow> (exn + Chunk list) \<times> 'w"
  parse_file :: "bytes \<Rightarrow> string \<Rightarrow> string option \<Rightarrow> 'w \<Rightarrow> (exn + pydict \<times> Chunk list) \<times> 'w"

record 'w BaseEmbeddingModel =
  embed_for_ingestion :: "Chunk list \<Rightarrow> 'w \<Rightarrow> (exn + embedding list) \<times> 'w"
  embed_for_query :: "string \<Rightarrow> 'w \<Rightarrow> (exn + embedding) \<times> 'w"

record 'w BaseCacheFactory =
  create_new_cache ::
    "string \<Rightarrow> string \<Rightarrow> string \<Rightarrow> pydict option \<Rightarrow> Document list \<Rightarrow> 'w \<Rightarrow> (exn + Cache) \<times> 'w"
  load_cache_from_bytes :: "string \<Rightarrow> bytes \<Rightarrow> cache_metadata \<Rightarrow> 'w \<Rightarrow> (exn + Cache) \<times> 'w"

text \<open>
  \<^verbatim>\<open>DocumentService.__init__\<close>. The reranker is optional. \<^verbatim>\<open>USE_RERANKING\<close> is the
  value of \<^verbatim>\<open>get_settings().USE_RERANKING\<close> (the configuration is not among the
  sources).
\<close>

record 'w DocumentService =
  db :: "'w BaseDatabase"
  vector_store :: "'w BaseVectorStore"
  storage :: "'w BaseStorage"
  parser :: "'w BaseParser"
  embedding_model :: "'w BaseEmbeddingModel"
  cache_factory :: "'w BaseCacheFactory"
  reranker :: "(string \<Rightarrow> DocumentChunk list \<Rightarrow> 'w \<Rightarrow> (exn + DocumentChunk list) \<times> 'w) option"
  process_rules :: "string \<Rightarrow> string list \<Rightarrow> 'w \<Rightarrow> (exn + pydict \<times> string) \<times> 'w"
  USE_RERANKING :: bool

section \<open>Running the service\<close>

text \<open>
  Every call of a collaborator is recorded, in order, with its arguments: the log says
  which calls a run made and in which order.
\<close>

datatype call =
    Embed_for_query string
  | Embed_for_ingestion "Chunk list"
  | Find_authorized_and_filtered_documents AuthContext "pydict option"
  | Query_similar embedding int "string list"
  | Rerank string "DocumentChunk list"
  | Get_document string AuthContext
  | Get_download_url string string
  | Process_rules string "string list"
  | Split_text string
  | Parse_file bytes string "string option"
  | Upload_from_base64 base64 string "string option" string
  | Download_file string string
  | Store_embeddings "DocumentChunk list"
  | Store_document Document
  | Count_number_of_chunks string
  | Delete_document string AuthContext
  | Delete_chunks string
  | Store_cache_metadata string cache_metadata
  | Get_cache_metadata string
  | Create_new_cache string
  | Load_cache_from_bytes string bytes

record 'w session =
  world :: 'w
  calls :: "call list"
  active_caches :: "string \<rightharpoonup> Cache"

type_synonym ('w, 'a) prog = "'w session \<Rightarrow> (exn + 'a) \<times> 'w session"

definition ok :: "'a \<Rightarrow> ('w, 'a) prog" where
  "ok v s = (Inr v, s)"

definition raise :: "exn \<Rightarrow> ('w, 'a) prog" where
  "raise e s = (Inl e, s)"

definition and_then :: "('w, 'a) prog \<Rightarrow> ('a \<Rightarrow> ('w, 'b) prog) \<Rightarrow> ('w, 'b) prog" where
  "and_then m f s = (case m s of (Inl e, s') \<Rightarrow> (Inl e, s') | (Inr v, s') \<Rightarrow> f v s')"

definition catch :: "('w, 'a) prog \<Rightarrow> (exn \<Rightarrow> ('w, 'a) prog) \<Rightarrow> ('w, 'a) prog" where
  "catch m h s = (case m s of (Inl e, s') \<Rightarrow> h e s' | (Inr v, s') \<Rightarrow> (Inr v, s'))"

definition await :: "call \<Rightarrow> ('w \<Rightarrow> (exn + 'a) \<times> 'w) \<Rightarrow> ('w, 'a) prog" where
  "await c f s =
     (case f (world s) of (r, w') \<Rightarrow> (r, s\<lparr>world := w', calls := calls s @ [c]\<rparr>))"

text \<open>Reading an attribute that the object may lack.\<close>

definition attr :: "string \<Rightarrow> 'a option \<Rightarrow> ('w, 'a) prog" where
  "attr name v = (case v of None \<Rightarrow> raise (AttributeError name) | Some x \<Rightarrow> ok x)"

section \<open>Retrieval\<close>

text \<open>
  \<^verbatim>\<open>xs[:k]\<close>: the first \<open>k\<close> elements, or all but the last \<open>-k\<close> when \<open>k\<close> is
  negative.
\<close>

definition slice_to :: "int \<Rightarrow> 'a list \<Rightarrow> 'a list" where
  "slice_to k xs = (if 0 \<le> k then take (nat k) xs else take (nat (int (length xs) + k)) xs)"

text \<open>
  \<^verbatim>\<open>_create_chunk_results\<close>: the loop over the chunks. A chunk whose document the
  database does not return is skipped.
\<close>

fun create_chunk_results ::
  "'w DocumentService \<Rightarrow> AuthContext \<Rightarrow> DocumentChunk list \<Rightarrow> ('w, ChunkResult list) prog" where
  "create_chunk_results S auth [] = ok []"
| "create_chunk_results S auth (chunk # chunks) =
     and_then (await (Get_document (document_id chunk) auth)
                     (get_document (db S) (document_id chunk) auth)) (\<lambda>doc.
     case doc of
       None \<Rightarrow> create_chunk_results S auth chunks
     | Some d \<Rightarrow>
         and_then (case storage_info d of
                     None \<Rightarrow> ok None
                   | Some (bucket, key) \<Rightarrow>
                       and_then (await (Get_download_url bucket key)
                                       (get_download_url (storage S) bucket key)) (\<lambda>url.
                       ok (Some url))) (\<lambda>download_url.
         and_then (create_chunk_results S auth chunks) (\<lambda>results.
         ok (\<lparr>cr_content = dc_content chunk, cr_score = score chunk,
              cr_document_id = document_id chunk, cr_chunk_number = chunk_number chunk,
              cr_metadata = metadata d, cr_content_type = content_type d,
              cr_filename = filename d, cr_download_url = download_url\<rparr> # results))))"

text \<open>
  \<^verbatim>\<open>retrieve_chunks\<close>. \<^verbatim>\<open>chunks.sort(key=lambda x: x.score, reverse=True)\<close> is a
  stable sort by descending score. \<open>min_score\<close> is a parameter, as in the source.
\<close>

definition retrieve_chunks ::
  "'w DocumentService \<Rightarrow> string \<Rightarrow> AuthContext \<Rightarrow> pydict option \<Rightarrow> int \<Rightarrow> real \<Rightarrow> bool option
   \<Rightarrow> ('w, ChunkResult list) prog" where
  "retrieve_chunks S query auth filters k min_score use_reranking =
     (let should_rerank = (case use_reranking of Some b \<Rightarrow> b | None \<Rightarrow> USE_RERANKING S) in
      and_then (await (Embed_for_query query)
                      (embed_for_query (embedding_model S) query)) (\<lambda>query_embedding.
      and_then (await (Find_authorized_and_filtered_documents auth filters)
                      (find_authorized_and_filtered_documents (db S) auth filters)) (\<lambda>doc_ids.
      if doc_ids = [] then ok []
      else
      and_then (await (Query_similar query_embedding (if should_rerank then 10 * k else k) doc_ids)
                      (query_similar (vector_store S) query_embedding
                         (if should_rerank then 10 * k else k) doc_ids)) (\<lambda>chunks.
      and_then (if chunks \<noteq> [] \<and> should_rerank
                then (case reranker S of
                        None \<Rightarrow> ok chunks
                      | Some rerank \<Rightarrow>
                          and_then (await (Rerank query chunks) (rerank query chunks)) (\<lambda>reranked.
                          ok (slice_to k (sort_key (\<lambda>x. - score x) reranked))))
                else ok chunks) (\<lambda>chunks.
      create_chunk_results S auth chunks)))))"

section \<open>Deletion\<close>

text \<open>\<^verbatim>\<open>delete_document_and_chunks\<close>.\<close>

definition delete_document_and_chunks ::
  "'w DocumentService \<Rightarrow> string \<Rightarrow> AuthContext \<Rightarrow> ('w, bool) prog" where
  "delete_document_and_chunks S ext_id auth =
     and_then (await (Get_document ext_id auth) (get_document (db S) ext_id auth)) (\<lambda>document.
     if document = None then ok False
     else
     and_then (await (Count_number_of_chunks ext_id)
                     (count_number_of_chunks (vector_store S) ext_id)) (\<lambda>count.
     if count = 0 then ok False
     else
     and_then (await (Delete_document ext_id auth)
                     (delete_document (db S) ext_id auth)) (\<lambda>document_deleted.
     if \<not> document_deleted then ok False
     else
     and_then (await (Delete_chunks ext_id) (delete_chunks (vector_store S) ext_id)) (\<lambda>deleted_count.
     if deleted_count \<noteq> count then ok False
     else ok True))))"


section \<open>Ingestion\<close>

text \<open>\<^verbatim>\<open>metadata.update(rule_metadata)\<close>: each key is set, in order.\<close>

definition dict_update :: "pydict \<Rightarrow> pydict \<Rightarrow> pydict" where
  "dict_update d u = fold (\<lambda>(k, v) acc. AList.update k v acc) u d"

text \<open>\<^verbatim>\<open>sep.join(xs)\<close>.\<close>

fun join :: "string \<Rightarrow> string list \<Rightarrow> string" where
  "join sep [] = []"
| "join sep [x] = x"
| "join sep (x # y # ys) = x @ sep @ join sep (y # ys)"

text \<open>
  \<^verbatim>\<open>if rules:\<close> holds of a list that is given and not empty; \<open>rules_given\<close> is the
  list, empty when the argument is \<^verbatim>\<open>None\<close>.
\<close>

definition rules_given :: "string list option \<Rightarrow> string list" where
  "rules_given rules = (case rules of None \<Rightarrow> [] | Some rs \<Rightarrow> rs)"

text \<open>
  Modelled from the spec: the constructor of \<^verbatim>\<open>Document\<close> is not among the sources.
  The external id is generated at creation: it is the argument \<open>new_id\<close>. The fields
  the caller does not pass start empty. Owner and access control are built from the
  caller's entity.
\<close>

definition new_Document ::
  "string \<Rightarrow> string \<Rightarrow> string option \<Rightarrow> pydict \<Rightarrow> EntityType \<Rightarrow> string \<Rightarrow> pydict \<Rightarrow> Document" where
  "new_Document new_id ctype fname meta etype eid additional =
     \<lparr>external_id = new_id, content_type = ctype, filename = fname, metadata = meta,
      owner = (etype, eid), readers = [eid], writers = [eid], admins = [eid],
      system_metadata = [], additional_metadata = additional, storage_info = None,
      chunk_ids = []\<rparr>"

text \<open>
  \<^verbatim>\<open>_store_chunks_and_doc\<close>. The source sets \<^verbatim>\<open>doc.chunk_ids\<close> on the caller's
  object; the document so changed is returned with the ids.
\<close>

definition store_chunks_and_doc ::
  "'w DocumentService \<Rightarrow> DocumentChunk list \<Rightarrow> Document \<Rightarrow> ('w, string list \<times> Document) prog" where
  "store_chunks_and_doc S chunk_objects doc =
     and_then (await (Store_embeddings chunk_objects)
                     (store_embeddings (vector_store S) chunk_objects)) (\<lambda>(success, result).
     if \<not> success then raise (Exception ''Failed to store chunk embeddings'')
     else
     and_then (await (Store_document (doc\<lparr>chunk_ids := result\<rparr>))
                     (store_document (db S) (doc\<lparr>chunk_ids := result\<rparr>))) (\<lambda>stored.
     if \<not> stored then raise (Exception ''Failed to store document metadata'')
     else ok (result, doc\<lparr>chunk_ids := result\<rparr>)))"

text \<open>
  \<^verbatim>\<open>ingest_text\<close>. The log line of the permission guard formats \<^verbatim>\<open>auth.entity_id\<close>
  before the raise. \<open>meta\<close> is the optional \<^verbatim>\<open>metadata\<close> argument: with rules
  given, \<^verbatim>\<open>metadata.update\<close> is called on it, which \<^verbatim>\<open>None\<close> does not have.
\<close>

definition ingest_text ::
  "'w DocumentService \<Rightarrow> string \<Rightarrow> string \<Rightarrow> pydict option \<Rightarrow> AuthContext \<Rightarrow> string list option
   \<Rightarrow> ('w, Document) prog" where
  "ingest_text S new_id txt meta auth rules =
     and_then (attr ''permissions'' (permissions auth)) (\<lambda>perms.
     and_then (if ''write'' \<notin> perms
               then and_then (attr ''entity_id'' (entity_id auth)) (\<lambda>_.
                    raise (PermissionError ''User does not have write permission''))
               else ok ()) (\<lambda>_.
     and_then (attr ''entity_type'' (entity_type auth)) (\<lambda>etype.
     and_then (attr ''entity_id'' (entity_id auth)) (\<lambda>eid.
     and_then (if rules_given rules \<noteq> []
               then and_then (await (Process_rules txt (rules_given rules))
                                    (process_rules S txt (rules_given rules))) (\<lambda>(rule_metadata, modified_text).
                    case meta of
                      None \<Rightarrow> raise (AttributeError ''update'')
                    | Some m \<Rightarrow>
                        ok (new_Document new_id ''text/plain'' None m etype eid []
                              \<lparr>metadata := dict_update m rule_metadata\<rparr>,
                            if modified_text \<noteq> [] then modified_text else txt))
               else ok (new_Document new_id ''text/plain'' None
                          (case meta of None \<Rightarrow> [] | Some m \<Rightarrow> m) etype eid [], txt))
       (\<lambda>(doc0, txt).
     and_then (await (Split_text txt) (split_text (parser S) txt)) (\<lambda>chunks.
     if chunks = [] then raise (ValueError ''No content chunks extracted'')
     else
     and_then (await (Embed_for_ingestion chunks)
                     (embed_for_ingestion (embedding_model S) chunks)) (\<lambda>embeddings.
     and_then (store_chunks_and_doc S
                 (create_chunk_objects new_id chunks embeddings)
                 (doc0\<lparr>system_metadata := AList.update ''content'' txt (system_metadata doc0)\<rparr>))
       (\<lambda>(result, doc). ok doc))))))))"

text \<open>\<^verbatim>\<open>ingest_file\<close>. Its \<^verbatim>\<open>metadata\<close> argument is a dictionary.\<close>

definition ingest_file ::
  "'w DocumentService \<Rightarrow> string \<Rightarrow> UploadFile \<Rightarrow> pydict \<Rightarrow> AuthContext \<Rightarrow> string list option
   \<Rightarrow> ('w, Document) prog" where
  "ingest_file S new_id file meta auth rules =
     and_then (attr ''permissions'' (permissions auth)) (\<lambda>perms.
     if ''write'' \<notin> perms then raise (PermissionError ''User does not have write permission'')
     else
     and_then (await (Parse_file (file_bytes file)
                        (case file_content_type file of None \<Rightarrow> [] | Some t \<Rightarrow> t)
                        (file_filename file))
                     (parse_file (parser S) (file_bytes file)
                        (case file_content_type file of None \<Rightarrow> [] | Some t \<Rightarrow> t)
                        (file_filename file))) (\<lambda>(additional, chunks).
     if chunks = [] then raise (ValueError ''No content chunks extracted from file'')
     else
     and_then (if rules_given rules \<noteq> []
               then and_then (await (Process_rules (join [CHR 0x0A] (map content chunks))
                                       (rules_given rules))
                                    (process_rules S (join [CHR 0x0A] (map content chunks))
                                       (rules_given rules)))
                      (\<lambda>(rule_metadata, modified_text).
                    if modified_text \<noteq> []
                    then and_then (await (Split_text modified_text)
                                         (split_text (parser S) modified_text)) (\<lambda>rechunked.
                         if rechunked = []
                         then raise (ValueError ''No content chunks extracted after rules processing'')
                         else ok (dict_update meta rule_metadata, modified_text, rechunked))
                    else ok (dict_update meta rule_metadata,
                             join [CHR 0x0A] (map content chunks), chunks))
               else ok (meta, join [CHR 0x0A] (map content chunks), chunks))
       (\<lambda>(meta, txt, chunks).
     and_then (attr ''entity_type'' (entity_type auth)) (\<lambda>etype.
     and_then (attr ''entity_id'' (entity_id auth)) (\<lambda>eid.
     and_then (await (Upload_from_base64 (B64 (file_bytes file)) new_id (file_content_type file) [])
                     (upload_from_base64 (storage S) (B64 (file_bytes file)) new_id
                        (file_content_type file) [])) (\<lambda>info.
     and_then (await (Embed_for_ingestion chunks)
                     (embed_for_ingestion (embedding_model S) chunks)) (\<lambda>embeddings.
     and_then (store_chunks_and_doc S
                 (create_chunk_objects new_id chunks embeddings)
                 (new_Document new_id (case file_content_type file of None \<Rightarrow> [] | Some t \<Rightarrow> t)
                    (file_filename file) meta etype eid additional
                    \<lparr>system_metadata := [(''content'', txt)], storage_info := Some info\<rparr>))
       (\<lambda>(result, doc). ok doc))))))))"


section \<open>Caches\<close>

text \<open>
  \<^verbatim>\<open>create_cache\<close> returns the dictionary \<^verbatim>\<open>{"success": ..., "message": ...}\<close>, a
  pair here. A \<^verbatim>\<open>None\<close> among the documents has no \<^verbatim>\<open>model_dump_json\<close>.
\<close>

fun dump_docs :: "Document option list \<Rightarrow> exn + Document list" where
  "dump_docs [] = Inr []"
| "dump_docs (None # ds) = Inl (AttributeError ''model_dump_json'')"
| "dump_docs (Some d # ds) = (case dump_docs ds of Inl e \<Rightarrow> Inl e | Inr r \<Rightarrow> Inr (d # r))"

definition create_cache ::
  "'w DocumentService \<Rightarrow> string \<Rightarrow> string \<Rightarrow> string \<Rightarrow> Document option list \<Rightarrow> pydict option
   \<Rightarrow> ('w, bool \<times> string) prog" where
  "create_cache S name model gguf_file docs filters =
     (case dump_docs docs of
        Inl e \<Rightarrow> raise e
      | Inr dumped \<Rightarrow>
     and_then (await (Store_cache_metadata name
                        \<lparr>cm_model = model, cm_model_file = gguf_file, cm_filters = filters,
                         cm_docs = dumped, cm_bucket = ''caches'', cm_key = name @ ''_state.pkl''\<rparr>)
                     (store_cache_metadata (db S) name
                        \<lparr>cm_model = model, cm_model_file = gguf_file, cm_filters = filters,
                         cm_docs = dumped, cm_bucket = ''caches'', cm_key = name @ ''_state.pkl''\<rparr>))
       (\<lambda>success.
     if \<not> success then ok (False, ''Failed to store cache metadata for cache '' @ name)
     else
     and_then (await (Create_new_cache name)
                     (create_new_cache (cache_factory S) name model gguf_file filters dumped)) (\<lambda>cache.
     and_then (await (Upload_from_base64 (B64 (saveable_state cache)) (name @ ''_state.pkl'')
                        None ''caches'')
                     (upload_from_base64 (storage S) (B64 (saveable_state cache))
                        (name @ ''_state.pkl'') None ''caches'')) (\<lambda>(bucket, key).
     ok (True, ''Cache created successfully, state stored in bucket `'' @ bucket
               @ ''` with key `'' @ key @ ''`'')))))"

text \<open>
  \<^verbatim>\<open>load_cache\<close> returns \<^verbatim>\<open>False\<close> when there is no descriptor, and a dictionary
  otherwise. Every exception of the body is caught.
\<close>

datatype load_result = Return_False | Return_dict bool string

fun exn_str :: "exn \<Rightarrow> string" where
  "exn_str (PermissionError m) = m"
| "exn_str (ValueError m) = m"
| "exn_str (AttributeError m) = m"
| "exn_str (Exception m) = m"
| "exn_str (TypeError m) = m"
| "exn_str (PyMongoError m) = m"
| "exn_str (FileNotFoundError m) = m"

definition set_active_cache :: "string \<Rightarrow> Cache \<Rightarrow> ('w, unit) prog" where
  "set_active_cache name cache s = (Inr (), s\<lparr>active_caches := (active_caches s)(name \<mapsto> cache)\<rparr>)"

definition load_cache :: "'w DocumentService \<Rightarrow> string \<Rightarrow> ('w, load_result) prog" where
  "load_cache S name =
     catch
       (and_then (await (Get_cache_metadata name) (get_cache_metadata (db S) name)) (\<lambda>md.
        case md of
          None \<Rightarrow> ok Return_False
        | Some m \<Rightarrow>
            and_then (await (Download_file (cm_bucket m) (''caches/'' @ cm_key m))
                            (download_file (storage S) (cm_bucket m) (''caches/'' @ cm_key m)))
              (\<lambda>cache_bytes.
            and_then (await (Load_cache_from_bytes name cache_bytes)
                            (load_cache_from_bytes (cache_factory S) name cache_bytes m)) (\<lambda>cache.
            and_then (set_active_cache name cache) (\<lambda>_.
            ok (Return_dict True ''Cache loaded successfully''))))))
       (\<lambda>e. ok (Return_dict False (''Failed to load cache '' @ name @ '': '' @ exn_str e)))"


section \<open>The MongoDB metadata store\<close>

text \<open>
  \<^verbatim>\<open>MongoDatabase\<close>. A stored document is the dictionary of a \<^verbatim>\<open>Document\<close>, and the
  field \<^verbatim>\<open>owner_id\<close> that the access filter matches (absent from what
  \<^verbatim>\<open>store_document\<close> inserts). The world holds the two collections; \<open>mongo_error\<close>
  is the failure of the driver, if any: every driver call then raises \<^verbatim>\<open>PyMongoError\<close>;
  \<open>unique_index\<close> says whether \<^verbatim>\<open>initialize\<close> has made \<^verbatim>\<open>external_id\<close> a unique
  index of the documents (nothing in the sources calls it). The world also holds the
  table of a second metadata store, a vector index and a blob store, which are described
  below.
\<close>

record mongo_document =
  owner_id :: "string option"
  body :: Document

record mem =
  collection :: "mongo_document list"
  caches :: "(string \<times> cache_metadata) list"
  mongo_error :: "string option"
  unique_index :: bool
  table :: "Document list"
  index :: "DocumentChunk list"
  index_read_only :: bool
  blobs :: "((string \<times> string) \<times> bytes) list"

text \<open>
  \<^verbatim>\<open>get_document\<close>: \<^verbatim>\<open>find_one\<close> of the id under the access filter
  \<^verbatim>\<open>{"owner_id": auth.user_id}\<close>; a driver error is raised again.
\<close>

definition mongo_get_document :: "string \<Rightarrow> AuthContext \<Rightarrow> mem \<Rightarrow> (exn + Document option) \<times> mem" where
  "mongo_get_document doc_id auth w =
     (case mongo_error w of
        Some m \<Rightarrow> (Inl (PyMongoError m), w)
      | None \<Rightarrow>
          (Inr (map_option body
                  (find (\<lambda>d. external_id (body d) = doc_id \<and> owner_id d = Some (user_id auth))
                        (collection w))), w))"

text \<open>
  \<^verbatim>\<open>store_document\<close>: the external id is copied into the metadata and the dictionary
  inserted. A driver error gives \<^verbatim>\<open>False\<close>; where \<^verbatim>\<open>external_id\<close> is a unique index,
  the insert of an id that the collection already has is a driver error. Without the
  index the second record is inserted. The timestamps are left out.
\<close>

definition mongo_store_document :: "Document \<Rightarrow> mem \<Rightarrow> (exn + bool) \<times> mem" where
  "mongo_store_document doc w =
     (if mongo_error w \<noteq> None \<or>
         (unique_index w \<and> external_id doc \<in> set (map (external_id \<circ> body) (collection w)))
      then (Inr False, w)
      else (Inr True,
            w\<lparr>collection := collection w @
                 [\<lparr>owner_id = None,
                   body = doc\<lparr>metadata :=
                     AList.update ''external_id'' (external_id doc) (metadata doc)\<rparr>\<rparr>]\<rparr>))"

text \<open>
  \<^verbatim>\<open>delete_document\<close> calls \<^verbatim>\<open>self.check_access(document_id, auth, "admin")\<close>, and
  \<^verbatim>\<open>check_access\<close> takes \<^verbatim>\<open>(document_id, auth)\<close>: the call raises \<^verbatim>\<open>TypeError\<close>,
  which the handler of \<^verbatim>\<open>PyMongoError\<close> does not catch.
\<close>

definition mongo_delete_document :: "string \<Rightarrow> AuthContext \<Rightarrow> mem \<Rightarrow> (exn + bool) \<times> mem" where
  "mongo_delete_document doc_id auth w =
     (Inl (TypeError ''check_access() takes 3 positional arguments but 4 were given''), w)"

text \<open>
  Modelled from the spec: \<^verbatim>\<open>_build_metadata_filter\<close> is not among the sources; the
  filter is the conjunction of the equalities \<^verbatim>\<open>metadata.key == value\<close>.
\<close>

definition build_metadata_filter :: "pydict \<Rightarrow> Document \<Rightarrow> bool" where
  "build_metadata_filter filters d = list_all (\<lambda>(k, v). map_of (metadata d) k = Some v) filters"

text \<open>
  \<^verbatim>\<open>find_authorized_and_filtered_documents\<close>: the ids of the documents of the owner
  that match the filter, when one is given and not empty. No handler: a driver error
  propagates.
\<close>

definition mongo_find_authorized_and_filtered_documents ::
  "AuthContext \<Rightarrow> pydict option \<Rightarrow> mem \<Rightarrow> (exn + string list) \<times> mem" where
  "mongo_find_authorized_and_filtered_documents auth filters w =
     (case mongo_error w of
        Some m \<Rightarrow> (Inl (PyMongoError m), w)
      | None \<Rightarrow>
          (Inr (map (external_id \<circ> body)
                  (filter (\<lambda>d. owner_id d = Some (user_id auth) \<and>
                                (case filters of
                                   None \<Rightarrow> True
                                 | Some f \<Rightarrow> f = [] \<or> build_metadata_filter f (body d)))
                          (collection w))), w))"

text \<open>
  \<^verbatim>\<open>store_cache_metadata\<close>: an upsert by name; any exception gives \<^verbatim>\<open>False\<close>.
  \<^verbatim>\<open>get_cache_metadata\<close>: the descriptor of the name, \<^verbatim>\<open>None\<close> when there is none
  or on any exception.
\<close>

definition mongo_store_cache_metadata :: "string \<Rightarrow> cache_metadata \<Rightarrow> mem \<Rightarrow> (exn + bool) \<times> mem" where
  "mongo_store_cache_metadata name md w =
     (if mongo_error w \<noteq> None then (Inr False, w)
      else (Inr True, w\<lparr>caches := AList.update name md (caches w)\<rparr>))"

definition mongo_get_cache_metadata :: "string \<Rightarrow> mem \<Rightarrow> (exn + cache_metadata option) \<times> mem" where
  "mongo_get_cache_metadata name w =
     (if mongo_error w \<noteq> None then (Inr None, w) else (Inr (map_of (caches w) name), w))"

definition MongoDatabase :: "mem BaseDatabase" where
  "MongoDatabase =
     \<lparr>store_document = mongo_store_document,
      get_document = mongo_get_document,
      delete_document = mongo_delete_document,
      find_authorized_and_filtered_documents = mongo_find_authorized_and_filtered_documents,
      store_cache_metadata = mongo_store_cache_metadata,
      get_cache_metadata = mongo_get_cache_metadata\<rparr>"

section \<open>In-memory collaborators\<close>

text \<open>
  Modelled from the spec: the vector index, the blob store, the cache factory, the
  parser and the embedding model have no implementation among the sources. These are
  the contracts of the spec, over the world \<open>mem\<close>: the index stores a batch of chunks
  and returns one id for each, searches the \<open>k\<close> most similar chunks among those of an
  allow-list of documents, counts and deletes the chunks of a document; the blob store
  keeps bytes at a (bucket, key); the cache factory builds a cache over documents and
  rebuilds it from its bytes and descriptor. An index that is read-only refuses to store
  and to delete.
\<close>

fun string_of_nat :: "nat \<Rightarrow> string" where
  "string_of_nat n =
     (if n < 10 then [''0123456789'' ! n]
      else string_of_nat (n div 10) @ [''0123456789'' ! (n mod 10)])"

declare string_of_nat.simps [simp del]

definition chunk_id :: "DocumentChunk \<Rightarrow> string" where
  "chunk_id c = document_id c @ ''-'' @ string_of_nat (nat (chunk_number c))"

definition memory_store_embeddings ::
  "DocumentChunk list \<Rightarrow> mem \<Rightarrow> (exn + bool \<times> string list) \<times> mem" where
  "memory_store_embeddings chunks w =
     (if index_read_only w then (Inr (False, []), w)
      else (Inr (True, map chunk_id chunks), w\<lparr>index := index w @ chunks\<rparr>))"

definition similarity :: "embedding \<Rightarrow> embedding \<Rightarrow> real" where
  "similarity q e = sum_list (map2 (*) q e)"

definition memory_query_similar ::
  "embedding \<Rightarrow> int \<Rightarrow> string list \<Rightarrow> mem \<Rightarrow> (exn + DocumentChunk list) \<times> mem" where
  "memory_query_similar q k doc_ids w =
     (Inr (take (nat k)
             (sort_key (\<lambda>c. - score c)
                (map (\<lambda>c. c\<lparr>score := similarity q (dc_embedding c)\<rparr>)
                     (filter (\<lambda>c. document_id c \<in> set doc_ids) (index w))))), w)"

definition memory_count_number_of_chunks :: "string \<Rightarrow> mem \<Rightarrow> (exn + int) \<times> mem" where
  "memory_count_number_of_chunks d w =
     (Inr (int (length (filter (\<lambda>c. document_id c = d) (index w)))), w)"

definition memory_delete_chunks :: "string \<Rightarrow> mem \<Rightarrow> (exn + int) \<times> mem" where
  "memory_delete_chunks d w =
     (if index_read_only w then (Inr 0, w)
      else (Inr (int (length (filter (\<lambda>c. document_id c = d) (index w)))),
            w\<lparr>index := filter (\<lambda>c. document_id c \<noteq> d) (index w)\<rparr>))"

definition MemoryVectorStore :: "mem BaseVectorStore" where
  "MemoryVectorStore =
     \<lparr>store_embeddings = memory_store_embeddings,
      query_similar = memory_query_similar,
      count_number_of_chunks = memory_count_number_of_chunks,
      delete_chunks = memory_delete_chunks\<rparr>"

definition memory_upload_from_base64 ::
  "base64 \<Rightarrow> string \<Rightarrow> string option \<Rightarrow> string \<Rightarrow> mem \<Rightarrow> (exn + string \<times> string) \<times> mem" where
  "memory_upload_from_base64 b key ctype bucket w =
     (Inr (bucket, key), w\<lparr>blobs := AList.update (bucket, key) (b64decode b) (blobs w)\<rparr>)"

definition memory_download_file :: "string \<Rightarrow> string \<Rightarrow> mem \<Rightarrow> (exn + bytes) \<times> mem" where
  "memory_download_file bucket key w =
     (case map_of (blobs w) (bucket, key) of
        None \<Rightarrow> (Inl (FileNotFoundError (bucket @ ''/'' @ key)), w)
      | Some b \<Rightarrow> (Inr b, w))"

definition memory_get_download_url :: "string \<Rightarrow> string \<Rightarrow> mem \<Rightarrow> (exn + string) \<times> mem" where
  "memory_get_download_url bucket key w = (Inr (''blob://'' @ bucket @ ''/'' @ key), w)"

definition MemoryStorage :: "mem BaseStorage" where
  "MemoryStorage =
     \<lparr>upload_from_base64 = memory_upload_from_base64,
      download_file = memory_download_file,
      get_download_url = memory_get_download_url\<rparr>"

definition document_text :: "Document \<Rightarrow> string" where
  "document_text d = (case map_of (system_metadata d) ''content'' of None \<Rightarrow> [] | Some t \<Rightarrow> t)"

definition memory_create_new_cache ::
  "string \<Rightarrow> string \<Rightarrow> string \<Rightarrow> pydict option \<Rightarrow> Document list \<Rightarrow> mem \<Rightarrow> (exn + Cache) \<times> mem" where
  "memory_create_new_cache name model model_file filters docs w =
     (Inr \<lparr>cache_name = name, cache_model = model, cache_model_file = model_file,
           cache_filters = filters, cache_docs = map external_id docs,
           saveable_state = concat (map document_text docs)\<rparr>, w)"

definition memory_load_cache_from_bytes ::
  "string \<Rightarrow> bytes \<Rightarrow> cache_metadata \<Rightarrow> mem \<Rightarrow> (exn + Cache) \<times> mem" where
  "memory_load_cache_from_bytes name cache_bytes md w =
     (Inr \<lparr>cache_name = name, cache_model = cm_model md, cache_model_file = cm_model_file md,
           cache_filters = cm_filters md, cache_docs = map external_id (cm_docs md),
           saveable_state = cache_bytes\<rparr>, w)"

definition MemoryCacheFactory :: "mem BaseCacheFactory" where
  "MemoryCacheFactory =
     \<lparr>create_new_cache = memory_create_new_cache,
      load_cache_from_bytes = memory_load_cache_from_bytes\<rparr>"

text \<open>
  A parser that cuts the text into pieces of four characters, and an embedding model
  that embeds a text as the vector of its length. \<open>batch_limit\<close> is the number of
  texts the embedding model embeds in one call, when it has such a limit.
\<close>

fun pieces :: "nat \<Rightarrow> string \<Rightarrow> string list" where
  "pieces fuel [] = []"
| "pieces 0 txt = [txt]"
| "pieces (Suc fuel) txt = take 4 txt # pieces fuel (drop 4 txt)"

definition memory_split_text :: "string \<Rightarrow> mem \<Rightarrow> (exn + Chunk list) \<times> mem" where
  "memory_split_text txt w =
     (Inr (map (\<lambda>t. \<lparr>content = t, chunk_metadata = []\<rparr>) (pieces (length txt) txt)), w)"

definition memory_parse_file ::
  "bytes \<Rightarrow> string \<Rightarrow> string option \<Rightarrow> mem \<Rightarrow> (exn + pydict \<times> Chunk list) \<times> mem" where
  "memory_parse_file b ctype fname w =
     (Inr ([], map (\<lambda>t. \<lparr>content = t, chunk_metadata = []\<rparr>) (pieces (length b) b)), w)"

definition MemoryParser :: "mem BaseParser" where
  "MemoryParser = \<lparr>split_text = memory_split_text, parse_file = memory_parse_file\<rparr>"

definition embed_text :: "string \<Rightarrow> embedding" where
  "embed_text t = [real (length t)]"

definition memory_embed_for_ingestion ::
  "nat option \<Rightarrow> Chunk list \<Rightarrow> mem \<Rightarrow> (exn + embedding list) \<times> mem" where
  "memory_embed_for_ingestion batch_limit chunks w =
     (Inr (map (embed_text \<circ> content)
             (case batch_limit of None \<Rightarrow> chunks | Some n \<Rightarrow> take n chunks)), w)"

definition memory_embed_for_query :: "string \<Rightarrow> mem \<Rightarrow> (exn + embedding) \<times> mem" where
  "memory_embed_for_query q w = (Inr (embed_text q), w)"

definition MemoryEmbeddingModel :: "nat option \<Rightarrow> mem BaseEmbeddingModel" where
  "MemoryEmbeddingModel batch_limit =
     \<lparr>embed_for_ingestion = memory_embed_for_ingestion batch_limit,
      embed_for_query = memory_embed_for_query\<rparr>"

definition no_rules :: "string \<Rightarrow> string list \<Rightarrow> mem \<Rightarrow> (exn + pydict \<times> string) \<times> mem" where
  "no_rules txt rules w = (Inr ([], []), w)"

text \<open>
  Modelled from the spec: \<^verbatim>\<open>PostgresDatabase\<close>, the other metadata store that
  \<^verbatim>\<open>api.py\<close> can configure, is not among the sources
  (\<^verbatim>\<open>core/database/postgres_database.py\<close>). It is the metadata store of the spec over
  the table of documents: a document is retrieved by a caller whose identity is among
  its readers and deleted by a caller whose identity is among its admins, delete
  returning whether a record was removed; the ids listed are those of the documents the
  caller owns that match the filter; a cache descriptor is stored and fetched by name.
  The identity of a caller is \<^verbatim>\<open>auth.entity_id\<close>.
\<close>

definition postgres_store_document :: "Document \<Rightarrow> mem \<Rightarrow> (exn + bool) \<times> mem" where
  "postgres_store_document doc w = (Inr True, w\<lparr>table := table w @ [doc]\<rparr>)"

definition postgres_get_document ::
  "string \<Rightarrow> AuthContext \<Rightarrow> mem \<Rightarrow> (exn + Document option) \<times> mem" where
  "postgres_get_document doc_id auth w =
     (case entity_id auth of
        None \<Rightarrow> (Inl (AttributeError ''entity_id''), w)
      | Some eid \<Rightarrow>
          (Inr (find (\<lambda>d. external_id d = doc_id \<and> eid \<in> set (readers d)) (table w)), w))"

definition postgres_delete_document ::
  "string \<Rightarrow> AuthContext \<Rightarrow> mem \<Rightarrow> (exn + bool) \<times> mem" where
  "postgres_delete_document doc_id auth w =
     (case entity_id auth of
        None \<Rightarrow> (Inl (AttributeError ''entity_id''), w)
      | Some eid \<Rightarrow>
          (case find (\<lambda>d. external_id d = doc_id \<and> eid \<in> set (admins d)) (table w) of
             None \<Rightarrow> (Inr False, w)
           | Some d \<Rightarrow> (Inr True, w\<lparr>table := remove1 d (table w)\<rparr>)))"

definition postgres_find_authorized_and_filtered_documents ::
  "AuthContext \<Rightarrow> pydict option \<Rightarrow> mem \<Rightarrow> (exn + string list) \<times> mem" where
  "postgres_find_authorized_and_filtered_documents auth filters w =
     (case entity_id auth of
        None \<Rightarrow> (Inl (AttributeError ''entity_id''), w)
      | Some eid \<Rightarrow>
          (Inr (map external_id
                  (filter (\<lambda>d. snd (owner d) = eid \<and>
                                (case filters of
                                   None \<Rightarrow> True
                                 | Some f \<Rightarrow> build_metadata_filter f d))
                          (table w))), w))"

definition postgres_store_cache_metadata ::
  "string \<Rightarrow> cache_metadata \<Rightarrow> mem \<Rightarrow> (exn + bool) \<times> mem" where
  "postgres_store_cache_metadata name md w =
     (Inr True, w\<lparr>caches := AList.update name md (caches w)\<rparr>)"

definition postgres_get_cache_metadata :: "string \<Rightarrow> mem \<Rightarrow> (exn + cache_metadata option) \<times> mem" where
  "postgres_get_cache_metadata name w = (Inr (map_of (caches w) name), w)"

definition PostgresDatabase :: "mem BaseDatabase" where
  "PostgresDatabase =
     \<lparr>store_document = postgres_store_document,
      get_document = postgres_get_document,
      delete_document = postgres_delete_document,
      find_authorized_and_filtered_documents = postgres_find_authorized_and_filtered_documents,
      store_cache_metadata = postgres_store_cache_metadata,
      get_cache_metadata = postgres_get_cache_metadata\<rparr>"

text \<open>
  The service over these collaborators and the MongoDB store, with no reranker
  configured.
\<close>

definition MemoryService :: "mem DocumentService" where
  "MemoryService =
     \<lparr>db = MongoDatabase, vector_store = MemoryVectorStore, storage = MemoryStorage,
      parser = MemoryParser, embedding_model = MemoryEmbeddingModel None,
      cache_factory = MemoryCacheFactory, reranker = None, process_rules = no_rules,
      USE_RERANKING = False\<rparr>"

text \<open>The same service over the PostgreSQL store.\<close>

definition PostgresService :: "mem DocumentService" where
  "PostgresService = MemoryService\<lparr>db := PostgresDatabase\<rparr>"

definition start :: "'w \<Rightarrow> 'w session" where
  "start w = \<lparr>world = w, calls = [], active_caches = Map.empty\<rparr>"


section \<open>Example inputs\<close>

text \<open>
  A caller with the fields of a token, a text document, two of its chunks, and worlds
  that hold them: \<open>world1 own ro\<close> has the document owned by \<open>own\<close> and an index that
  is read-only when \<open>ro\<close> holds.
\<close>

definition alice :: AuthContext where
  "alice = \<lparr>user_id = ''alice'', entity_type = Some USER, entity_id = Some ''alice'',
            permissions = Some {''read'', ''write''}\<rparr>"

definition reader :: AuthContext where
  "reader = \<lparr>user_id = ''carol'', entity_type = Some USER, entity_id = Some ''carol'',
             permissions = Some {''read''}\<rparr>"

definition doc1 :: "string \<Rightarrow> Document" where
  "doc1 own = new_Document ''d1'' ''text/plain'' None [] USER own []"

definition chunk1 :: "int \<Rightarrow> DocumentChunk" where
  "chunk1 n = \<lparr>document_id = ''d1'', dc_content = ''text'', dc_embedding = [1], chunk_number = n,
               dc_metadata = [], score = 0\<rparr>"

definition empty_world :: mem where
  "empty_world = \<lparr>collection = [], caches = [], mongo_error = None, unique_index = False,
                   table = [], index = [], index_read_only = False, blobs = []\<rparr>"

definition world1 :: "string \<Rightarrow> bool \<Rightarrow> mem" where
  "world1 own ro =
     \<lparr>collection = [\<lparr>owner_id = Some own, body = doc1 own\<rparr>], caches = [], mongo_error = None,
      unique_index = False, table = [], index = [chunk1 0, chunk1 1], index_read_only = ro,
      blobs = []\<rparr>"

text \<open>
  The worlds of the PostgreSQL store: \<open>world2 d ro\<close> has the document \<open>d\<close> in the table,
  its two chunks indexed, and an index that is read-only when \<open>ro\<close> holds. \<open>shared_doc\<close>
  is a document of \<^verbatim>\<open>bob\<close> that \<^verbatim>\<open>alice\<close> may read and not administer. \<open>no_entity\<close>
  is a caller with a permission set and no entity id.
\<close>

definition world2 :: "Document \<Rightarrow> bool \<Rightarrow> mem" where
  "world2 d ro = empty_world\<lparr>table := [d], index := [chunk1 0, chunk1 1], index_read_only := ro\<rparr>"

definition shared_doc :: Document where
  "shared_doc = doc1 ''bob''\<lparr>readers := [''bob'', ''alice'']\<rparr>"

definition no_entity :: AuthContext where
  "no_entity = \<lparr>user_id = ''dave'', entity_type = None, entity_id = None,
                permissions = Some {''read''}\<rparr>"

definition two_chunks :: "Chunk list" where
  "two_chunks = [\<lparr>content = ''abcd'', chunk_metadata = []\<rparr>, \<lparr>content = ''ef'', chunk_metadata = []\<rparr>]"

definition objs1 :: "DocumentChunk list" where
  "objs1 = create_chunk_objects ''d1'' two_chunks [[4], [2]]"

definition doc2 :: Document where
  "doc2 = new_Document ''d2'' ''text/plain'' None [] USER ''alice'' []
            \<lparr>system_metadata := [(''content'', ''hello'')]\<rparr>"

text \<open>The service with an embedding model that embeds at most two texts of a batch.\<close>

definition BatchLimitedService :: "mem DocumentService" where
  "BatchLimitedService = MemoryService\<lparr>embedding_model := MemoryEmbeddingModel (Some 2)\<rparr>"

text \<open>
  The runs that the theorems below evaluate: a delete on the PostgreSQL store against a
  read-only index, a retrieval with reranking asked for and no reranker, a cache created
  and then loaded, and an ingestion whose embedding model returns fewer embeddings than
  chunks.
\<close>

definition partial_delete_run :: "(exn + bool) \<times> mem session" where
  "partial_delete_run =
     delete_document_and_chunks PostgresService ''d1'' alice
       (start (world2 (doc1 ''alice'') True))"

definition over_fetch_run :: "(exn + ChunkResult list) \<times> mem session" where
  "over_fetch_run =
     retrieve_chunks MemoryService ''abcd'' alice None 1 0 (Some True) (start (world1 ''alice'' False))"

definition cache_created :: "(exn + bool \<times> string) \<times> mem session" where
  "cache_created =
     create_cache MemoryService ''c1'' ''llama'' ''m.gguf'' [Some doc2] None (start empty_world)"

definition cache_loaded :: "(exn + load_result) \<times> mem session" where
  "cache_loaded = load_cache MemoryService ''c1'' (snd cache_created)"

definition truncated_ingest_run :: "(exn + Document) \<times> mem session" where
  "truncated_ingest_run =
     ingest_text BatchLimitedService ''d1'' ''abcdefghij'' None alice None (start empty_world)"

text \<open>
  An upload of six bytes with no content type and no file name, the two ingestions of
  \<^verbatim>\<open>abcdef\<close> by \<^verbatim>\<open>alice\<close> into the empty stores, and the documents they return.
\<close>

definition upload1 :: UploadFile where
  "upload1 = \<lparr>file_bytes = ''abcdef'', file_content_type = None, file_filename = None\<rparr>"

definition text_ingest_run :: "(exn + Document) \<times> mem session" where
  "text_ingest_run = ingest_text MemoryService ''d1'' ''abcdef'' None alice None (start empty_world)"

definition file_ingest_run :: "(exn + Document) \<times> mem session" where
  "file_ingest_run = ingest_file MemoryService ''d1'' upload1 [] alice None (start empty_world)"

definition text_doc :: Document where
  "text_doc = new_Document ''d1'' ''text/plain'' None [] USER ''alice'' []
                \<lparr>system_metadata := [(''content'', ''abcdef'')], chunk_ids := [''d1-0'', ''d1-1'']\<rparr>"

definition file_doc :: Document where
  "file_doc = new_Document ''d1'' [] None [] USER ''alice'' []
                \<lparr>system_metadata := [(''content'', ''abcd'' @ [CHR 0x0A] @ ''ef'')],
                 storage_info := Some ([], ''d1''), chunk_ids := [''d1-0'', ''d1-1'']\<rparr>"

section \<open>Properties of collaborators and of runs\<close>

text \<open>
  The count of the chunks of a document, as the vector store reports it. A vector store
  counts the chunks it stored when a successful \<^verbatim>\<open>store_embeddings\<close> returns one id
  for each chunk and raises the count of each document by the number of its chunks in
  the batch. A metadata store keeps the index when \<^verbatim>\<open>store_document\<close> leaves every
  count as it was.
\<close>

definition chunk_count :: "'w DocumentService \<Rightarrow> string \<Rightarrow> 'w \<Rightarrow> exn + int" where
  "chunk_count S i w = fst (count_number_of_chunks (vector_store S) i w)"

definition index_counts_stored_chunks :: "'w DocumentService \<Rightarrow> bool" where
  "index_counts_stored_chunks S \<longleftrightarrow>
     (\<forall>cs w ids w'. store_embeddings (vector_store S) cs w = (Inr (True, ids), w') \<longrightarrow>
        length ids = length cs \<and>
        (\<forall>i n. chunk_count S i w = Inr n \<longrightarrow>
           chunk_count S i w' = Inr (n + int (length (filter (\<lambda>c. document_id c = i) cs)))))"

definition store_document_keeps_index :: "'w DocumentService \<Rightarrow> bool" where
  "store_document_keeps_index S \<longleftrightarrow>
     (\<forall>d w r w' i. store_document (db S) d w = (r, w') \<longrightarrow> chunk_count S i w' = chunk_count S i w)"

text \<open>
  A run only appends to the log of calls; a run makes a call when it appends at least
  one.
\<close>

definition only_appends :: "('w, 'a) prog \<Rightarrow> bool" where
  "only_appends m \<longleftrightarrow> (\<forall>s. \<exists>cs. calls (snd (m s)) = calls s @ cs)"

definition makes_call :: "('w, 'a) prog \<Rightarrow> bool" where
  "makes_call m \<longleftrightarrow> (\<forall>s. \<exists>c cs. calls (snd (m s)) = calls s @ c # cs)"

text \<open>
  The calls that write to a store. \<open>stored_as S i new D r w\<close>: among the calls \<open>new\<close> of
  an ingestion of the document \<open>i\<close>, the record \<open>D\<close> was handed to the metadata store
  last, straight after the one call of \<^verbatim>\<open>store_embeddings\<close>, with no other call of
  \<^verbatim>\<open>store_embeddings\<close> or \<^verbatim>\<open>store_document\<close> before them;
  the chunks stored are chunks of \<open>i\<close>, the index answered \<^verbatim>\<open>True\<close> with the ids that
  are the \<^verbatim>\<open>chunk_ids\<close> of \<open>D\<close>; \<open>w\<close> is the world that \<^verbatim>\<open>store_document\<close> left,
  called in the world that \<^verbatim>\<open>store_embeddings\<close> left; the outcome \<open>r\<close> is \<open>D\<close> when
  \<^verbatim>\<open>store_document\<close> answered \<^verbatim>\<open>True\<close>, the exception it raised when it raised, and
  otherwise the exception of the failed store; and, for an index that counts the chunks
  it stored and a metadata store that keeps the index, the count of \<open>i\<close> in \<open>w\<close> is the
  length of the \<^verbatim>\<open>chunk_ids\<close> of \<open>D\<close> when it was 0 before the chunks were stored.
  \<open>persists S i m\<close>: every run of \<open>m\<close> only appends calls, a run that returns a document
  has handed it to the metadata store, and a record handed to the metadata store is
  stored as above.
\<close>

fun is_store :: "call \<Rightarrow> bool" where
  "is_store (Store_embeddings objs) = True"
| "is_store (Store_document D) = True"
| "is_store c = False"

definition stored_as ::
  "'w DocumentService \<Rightarrow> string \<Rightarrow> call list \<Rightarrow> Document \<Rightarrow> exn + Document \<Rightarrow> 'w \<Rightarrow> bool" where
  "stored_as S i new D r w \<longleftrightarrow>
     (\<exists>pre objs ids w0 w1 r2.
        new = pre @ [Store_embeddings objs, Store_document D] \<and>
        (\<forall>c\<in>set pre. \<not> is_store c) \<and>
        (\<forall>c\<in>set objs. document_id c = i) \<and> external_id D = i \<and>
        store_embeddings (vector_store S) objs w0 = (Inr (True, ids), w1) \<and>
        chunk_ids D = ids \<and>
        store_document (db S) D w1 = (r2, w) \<and>
        r = (case r2 of
               Inl e \<Rightarrow> Inl e
             | Inr stored \<Rightarrow>
                 if stored then Inr D else Inl (Exception ''Failed to store document metadata'')) \<and>
        (index_counts_stored_chunks S \<longrightarrow> store_document_keeps_index S \<longrightarrow>
         chunk_count S i w0 = Inr 0 \<longrightarrow>
         chunk_count S i w = Inr (int (length (chunk_ids D)))))"

definition persists :: "'w DocumentService \<Rightarrow> string \<Rightarrow> ('w, Document) prog \<Rightarrow> bool" where
  "persists S i m \<longleftrightarrow>
     (\<forall>s r s'. m s = (r, s') \<longrightarrow>
        (\<exists>new. calls s' = calls s @ new \<and>
           (\<forall>D. r = Inr D \<longrightarrow> Store_document D \<in> set new) \<and>
           (\<forall>D. Store_document D \<in> set new \<longrightarrow> stored_as S i new D r (world s'))))"

section \<open>Lemmas\<close>

lemma and_then_ok [simp]: "and_then (ok v) f = f v"
  by (rule ext) (simp add: and_then_def ok_def)

lemma and_then_raise [simp]: "and_then (raise e) f = raise e"
  by (rule ext) (simp add: and_then_def raise_def)

lemma length_create_chunk_objects:
  "length (create_chunk_objects d cs es) = min (length cs) (length es)"
  by (simp add: create_chunk_objects_def min.commute)

lemma nth_create_chunk_objects:
  "i < length cs \<Longrightarrow> i < length es \<Longrightarrow>
   create_chunk_objects d cs es ! i = to_document_chunk (cs ! i) (int i) (es ! i) d"
  by (simp add: create_chunk_objects_def nth_enumerate_eq)

lemma document_id_create_chunk_objects:
  "c \<in> set (create_chunk_objects d cs es) \<Longrightarrow> document_id c = d"
  by (auto simp: create_chunk_objects_def to_document_chunk_def)

lemma chunk_numbers_create_chunk_objects:
  "map chunk_number (create_chunk_objects d cs es) = map int [0..<min (length cs) (length es)]"
  by (rule nth_equalityI)
     (simp_all add: length_create_chunk_objects nth_create_chunk_objects to_document_chunk_def)

lemma only_appends_ok: "only_appends (ok v)"
  by (simp add: only_appends_def ok_def)

lemma only_appends_raise: "only_appends (raise e)"
  by (simp add: only_appends_def raise_def)

lemma only_appends_await: "only_appends (await c f)"
  by (simp add: only_appends_def await_def split: prod.split)

lemma only_appends_attr: "only_appends (attr n v)"
  by (cases v) (simp_all add: attr_def only_appends_ok only_appends_raise)

lemma only_appends_and_then:
  assumes "only_appends m" and "\<And>v. only_appends (f v)"
  shows "only_appends (and_then m f)"
  unfolding only_appends_def
proof
  fix s
  obtain r s1 where m: "m s = (r, s1)" by (cases "m s")
  from assms(1) obtain cs where cs: "calls s1 = calls s @ cs"
    unfolding only_appends_def using m by (metis snd_conv)
  show "\<exists>cs. calls (snd (and_then m f s)) = calls s @ cs"
  proof (cases r)
    case (Inl e)
    then show ?thesis using m cs by (simp add: and_then_def)
  next
    case (Inr v)
    from assms(2)[of v] obtain ds where "calls (snd (f v s1)) = calls s1 @ ds"
      unfolding only_appends_def by blast
    then show ?thesis using m cs Inr by (simp add: and_then_def)
  qed
qed

lemma makes_call_await: "makes_call (await c f)"
  by (simp add: makes_call_def await_def split: prod.split)

lemma makes_call_and_then:
  assumes "makes_call m" and "\<And>v. only_appends (f v)"
  shows "makes_call (and_then m f)"
  unfolding makes_call_def
proof
  fix s
  obtain r s1 where m: "m s = (r, s1)" by (cases "m s")
  from assms(1) obtain c cs where cs: "calls s1 = calls s @ c # cs"
    unfolding makes_call_def using m by (metis snd_conv)
  show "\<exists>c cs. calls (snd (and_then m f s)) = calls s @ c # cs"
  proof (cases r)
    case (Inl e)
    then show ?thesis using m cs by (simp add: and_then_def)
  next
    case (Inr v)
    from assms(2)[of v] obtain ds where "calls (snd (f v s1)) = calls s1 @ ds"
      unfolding only_appends_def by blast
    then show ?thesis using m cs Inr by (simp add: and_then_def)
  qed
qed

lemmas appends_intros = only_appends_ok only_appends_raise only_appends_await only_appends_attr
  only_appends_and_then

lemma only_appends_store_chunks_and_doc: "only_appends (store_chunks_and_doc S objs d)"
  unfolding store_chunks_and_doc_def
  by (auto intro!: appends_intros split: prod.split)

lemma makes_call_not_same: "makes_call m \<Longrightarrow> m s \<noteq> (r, s)"
  unfolding makes_call_def by (metis append_self_conv list.distinct(1) snd_conv)

lemma passes_guard_ingest_text:
  assumes "permissions auth = Some P" "''write'' \<in> P"
  shows "ingest_text S i t m auth r s \<noteq> (Inl (PermissionError ''User does not have write permission''), s)"
proof (cases "entity_type auth")
  case None
  then show ?thesis using assms by (simp add: ingest_text_def attr_def raise_def)
next
  case (Some et)
  show ?thesis
  proof (cases "entity_id auth")
    case None
    then show ?thesis using assms Some by (simp add: ingest_text_def attr_def raise_def)
  next
    case (Some eid)
    have "makes_call (ingest_text S i t m auth r)"
      using assms \<open>entity_type auth = Some et\<close> Some
      unfolding ingest_text_def
      by (auto simp: attr_def intro!: makes_call_and_then makes_call_await appends_intros
            only_appends_store_chunks_and_doc split: prod.split option.split)
    then show ?thesis by (rule makes_call_not_same)
  qed
qed

lemma passes_guard_ingest_file:
  assumes "permissions auth = Some P" "''write'' \<in> P"
  shows "ingest_file S i f m auth r s \<noteq> (Inl (PermissionError ''User does not have write permission''), s)"
proof -
  have "makes_call (ingest_file S i f m auth r)"
    using assms unfolding ingest_file_def
    by (auto simp: attr_def intro!: makes_call_and_then makes_call_await appends_intros
          only_appends_store_chunks_and_doc split: prod.split option.split)
  then show ?thesis by (rule makes_call_not_same)
qed

lemma ingest_with_declared_AuthContext:
  assumes "permissions auth = None"
  shows "ingest_text S i t m auth r s = (Inl (AttributeError ''permissions''), s)"
    and "ingest_file S i f m' auth r s = (Inl (AttributeError ''permissions''), s)"
  using assms by (simp_all add: ingest_text_def ingest_file_def attr_def raise_def)

lemmas mem_defs = MemoryService_def MongoDatabase_def MemoryVectorStore_def MemoryStorage_def
  MemoryParser_def MemoryEmbeddingModel_def MemoryCacheFactory_def
  mongo_get_document_def mongo_store_document_def mongo_delete_document_def
  mongo_find_authorized_and_filtered_documents_def mongo_store_cache_metadata_def
  mongo_get_cache_metadata_def memory_store_embeddings_def
  memory_query_similar_def memory_count_number_of_chunks_def memory_delete_chunks_def
  memory_upload_from_base64_def memory_download_file_def memory_get_download_url_def
  memory_create_new_cache_def memory_load_cache_from_bytes_def
  memory_embed_for_ingestion_def memory_embed_for_query_def no_rules_def
  BatchLimitedService_def PostgresService_def PostgresDatabase_def postgres_store_document_def
  postgres_get_document_def postgres_delete_document_def
  postgres_find_authorized_and_filtered_documents_def postgres_store_cache_metadata_def
  postgres_get_cache_metadata_def

lemmas run_defs = and_then_def await_def ok_def raise_def attr_def catch_def start_def
  set_active_cache_def

lemmas input_defs = alice_def reader_def no_entity_def doc1_def doc2_def shared_doc_def chunk1_def
  empty_world_def world1_def world2_def
  two_chunks_def new_Document_def

lemma string_of_nat_digit: "n < 10 \<Longrightarrow> string_of_nat n = [''0123456789'' ! n]"
  by (simp add: string_of_nat.simps)

lemma objs1_eval:
  "objs1 = [to_document_chunk (two_chunks ! 0) 0 [4] ''d1'',
            to_document_chunk (two_chunks ! 1) 1 [2] ''d1'']"
  by (simp add: objs1_def create_chunk_objects_def two_chunks_def enumerate_eq_zip upt_rec)

lemma split_abcdefghij:
  "memory_split_text ''abcdefghij'' w =
     (Inr [\<lparr>content = ''abcd'', chunk_metadata = []\<rparr>, \<lparr>content = ''efgh'', chunk_metadata = []\<rparr>,
           \<lparr>content = ''ij'', chunk_metadata = []\<rparr>], w)"
  by (simp add: memory_split_text_def eval_nat_numeral)

lemma split_abcdef: "memory_split_text ''abcdef'' w = (Inr two_chunks, w)"
  by (simp add: memory_split_text_def two_chunks_def eval_nat_numeral)

lemma memory_index_counts: "index_counts_stored_chunks MemoryService"
  by (auto simp: index_counts_stored_chunks_def chunk_count_def MemoryService_def
        MemoryVectorStore_def memory_store_embeddings_def memory_count_number_of_chunks_def
        split: if_splits)

lemma mongo_keeps_index: "store_document_keeps_index MemoryService"
  by (auto simp: store_document_keeps_index_def chunk_count_def MemoryService_def
        MemoryVectorStore_def MongoDatabase_def mongo_store_document_def
        memory_count_number_of_chunks_def split: if_splits)

lemma ingest_text_stores_created_chunk_objects:
  assumes "ingest_text S i t m auth rules s = (Inr D, s')"
  shows "\<exists>pre txt chunks embeddings w0 w1 w2.
           chunks \<noteq> [] \<and>
           split_text (parser S) txt w0 = (Inr chunks, w1) \<and>
           embed_for_ingestion (embedding_model S) chunks w1 = (Inr embeddings, w2) \<and>
           calls s' = pre @ [Split_text txt, Embed_for_ingestion chunks,
                             Store_embeddings (create_chunk_objects i chunks embeddings),
                             Store_document D]"
  using assms
  apply (auto simp: ingest_text_def store_chunks_and_doc_def and_then_def await_def attr_def raise_def ok_def
      split: option.splits sum.splits prod.splits if_splits)
  apply blast+
  done

lemma ingested_abcdef:
  "ingest_text MemoryService ''d1'' ''abcdef'' None alice None (start empty_world) =
     (Inr (new_Document ''d1'' ''text/plain'' None [] USER ''alice'' []
             \<lparr>system_metadata := [(''content'', ''abcdef'')], chunk_ids := [''d1-0'', ''d1-1'']\<rparr>),
      snd (ingest_text MemoryService ''d1'' ''abcdef'' None alice None (start empty_world)))"
  by (simp add: ingest_text_def store_chunks_and_doc_def mem_defs run_defs
      input_defs rules_given_def split_abcdef create_chunk_objects_def enumerate_eq_zip upt_rec
      to_document_chunk_def chunk_id_def string_of_nat_digit embed_text_def)

text \<open>
  With a reranker configured and \<open>k\<close> not negative, a retrieval with reranking asked for
  returns at most \<open>k\<close> results: the reranked candidates are cut to \<open>k\<close>, and building
  the results only drops chunks. With the MongoDB store as it is, a delete that passes
  the pre-check ends in the \<^verbatim>\<open>TypeError\<close> of \<^verbatim>\<open>delete_document\<close>.
\<close>

lemma length_create_chunk_results:
  "create_chunk_results S auth chunks s = (Inr rs, s') \<Longrightarrow> length rs \<le> length chunks"
proof (induction chunks arbitrary: s rs s')
  case Nil
  then show ?case by (simp add: ok_def)
next
  case (Cons c cs)
  obtain r1 s1 where g: "await (Get_document (document_id c) auth)
        (get_document (db S) (document_id c) auth) s = (r1, s1)"
    by (cases "await (Get_document (document_id c) auth) (get_document (db S) (document_id c) auth) s")
  show ?case
  proof (cases r1)
    case (Inl e)
    then show ?thesis using Cons.prems g by (simp add: and_then_def)
  next
    case (Inr doc)
    show ?thesis
    proof (cases doc)
      case None
      then have "create_chunk_results S auth cs s1 = (Inr rs, s')"
        using Cons.prems g Inr by (simp add: and_then_def)
      then show ?thesis using Cons.IH by fastforce
    next
      case (Some d)
      define geturl where "geturl = (case storage_info d of
                     None \<Rightarrow> ok None
                   | Some (bucket, key) \<Rightarrow>
                       and_then (await (Get_download_url bucket key)
                                       (get_download_url (storage S) bucket key)) (\<lambda>url.
                       ok (Some url)))"
      obtain r2 s2 where u: "geturl s1 = (r2, s2)"
        by (cases "geturl s1")
      have step: "create_chunk_results S auth (c # cs) s =
                    and_then geturl (\<lambda>download_url.
                      and_then (create_chunk_results S auth cs) (\<lambda>results.
                        ok (\<lparr>cr_content = dc_content c, cr_score = score c,
                             cr_document_id = document_id c, cr_chunk_number = chunk_number c,
                             cr_metadata = metadata d, cr_content_type = content_type d,
                             cr_filename = filename d, cr_download_url = download_url\<rparr> # results))) s1"
        using g Inr Some by (simp add: and_then_def geturl_def)
      show ?thesis
      proof (cases r2)
        case (Inl e)
        then show ?thesis using Cons.prems step u by (simp add: and_then_def)
      next
        case (Inr url)
        obtain r3 s3 where t: "create_chunk_results S auth cs s2 = (r3, s3)"
          by (cases "create_chunk_results S auth cs s2")
        show ?thesis
        proof (cases r3)
          case (Inl e)
          then show ?thesis using Cons.prems step u \<open>r2 = Inr url\<close> t
            by (simp add: and_then_def)
        next
          case (Inr rest)
          then have "rs = \<lparr>cr_content = dc_content c, cr_score = score c,
              cr_document_id = document_id c, cr_chunk_number = chunk_number c,
              cr_metadata = metadata d, cr_content_type = content_type d,
              cr_filename = filename d, cr_download_url = url\<rparr> # rest"
            using Cons.prems step u \<open>r2 = Inr url\<close> t
            by (simp add: and_then_def ok_def)
          moreover have "length rest \<le> length cs"
            using Cons.IH t Inr by simp
          ultimately show ?thesis by simp
        qed
      qed
    qed
  qed
qed

lemma length_slice_to: "0 \<le> k \<Longrightarrow> int (length (slice_to k xs)) \<le> k"
  by (simp add: slice_to_def)

lemma mongo_delete_document_raises:
  "delete_document_and_chunks MemoryService ''d1'' alice (start (world1 ''alice'' False)) =
     (Inl (TypeError ''check_access() takes 3 positional arguments but 4 were given''),
      \<lparr>world = world1 ''alice'' False,
       calls = [Get_document ''d1'' alice, Count_number_of_chunks ''d1'',
                Delete_document ''d1'' alice],
       active_caches = Map.empty\<rparr>)"
  by (simp add: delete_document_and_chunks_def mem_defs run_defs input_defs)

lemma retrieve_chunks_at_most_k_with_reranker:
  assumes rr: "reranker S = Some rr" and k: "0 \<le> k"
      and run: "retrieve_chunks S q auth f k ms (Some True) s = (Inr rs, s')"
  shows "int (length rs) \<le> k"
proof -
  obtain r1 s1 where e: "await (Embed_for_query q) (embed_for_query (embedding_model S) q) s = (r1, s1)"
    by (cases "await (Embed_for_query q) (embed_for_query (embedding_model S) q) s")
  show ?thesis
  proof (cases r1)
    case (Inl x)
    then show ?thesis using run e by (simp add: retrieve_chunks_def and_then_def)
  next
    case (Inr qe)
    obtain r2 s2 where f: "await (Find_authorized_and_filtered_documents auth f)
        (find_authorized_and_filtered_documents (db S) auth f) s1 = (r2, s2)"
      by (cases "await (Find_authorized_and_filtered_documents auth f)
        (find_authorized_and_filtered_documents (db S) auth f) s1")
    show ?thesis
    proof (cases r2)
      case (Inl x)
      then show ?thesis using run e \<open>r1 = Inr qe\<close> f by (simp add: retrieve_chunks_def and_then_def)
    next
      case (Inr ids)
      show ?thesis
      proof (cases "ids = []")
        case True
        then have "rs = []"
          using run e \<open>r1 = Inr qe\<close> f Inr by (simp add: retrieve_chunks_def and_then_def ok_def)
        then show ?thesis using k by simp
      next
        case False
        obtain r3 s3 where v: "await (Query_similar qe (10 * k) ids)
            (query_similar (vector_store S) qe (10 * k) ids) s2 = (r3, s3)"
          by (cases "await (Query_similar qe (10 * k) ids)
            (query_similar (vector_store S) qe (10 * k) ids) s2")
        show ?thesis
        proof (cases r3)
          case (Inl x)
          then show ?thesis using run e \<open>r1 = Inr qe\<close> f \<open>r2 = Inr ids\<close> False v
            by (simp add: retrieve_chunks_def and_then_def)
        next
          case (Inr chunks)
          show ?thesis
          proof (cases "chunks = []")
            case True
            then have "create_chunk_results S auth [] s3 = (Inr rs, s')"
              using run e \<open>r1 = Inr qe\<close> f \<open>r2 = Inr ids\<close> False v Inr
              by (simp add: retrieve_chunks_def and_then_def)
            then show ?thesis using k by (simp add: ok_def)
          next
            case nonempty: False
            obtain r4 s4 where w: "await (Rerank q chunks) (rr q chunks) s3 = (r4, s4)"
              by (cases "await (Rerank q chunks) (rr q chunks) s3")
            show ?thesis
            proof (cases r4)
              case (Inl x)
              then show ?thesis
                using run e \<open>r1 = Inr qe\<close> f \<open>r2 = Inr ids\<close> False v \<open>r3 = Inr chunks\<close> nonempty w rr
                by (simp add: retrieve_chunks_def and_then_def)
            next
              case (Inr reranked)
              then have "create_chunk_results S auth
                           (slice_to k (sort_key (\<lambda>x. - score x) reranked)) s4 = (Inr rs, s')"
                using run e \<open>r1 = Inr qe\<close> f \<open>r2 = Inr ids\<close> False v \<open>r3 = Inr chunks\<close> nonempty w rr
                by (simp add: retrieve_chunks_def and_then_def ok_def)
              then have "length rs \<le> length (slice_to k (sort_key (\<lambda>x. - score x) reranked))"
                by (rule length_create_chunk_results)
              then show ?thesis
                using length_slice_to [OF k, of "sort_key (\<lambda>x. - score x) reranked"] by linarith
            qed
          qed
        qed
      qed
    qed
  qed
qed

lemma ingest_guard:
  assumes "permissions auth = Some P"
  shows "(''write'' \<notin> P \<longrightarrow>
            ingest_text S i t m auth r s =
              (Inl (case entity_id auth of
                      None \<Rightarrow> AttributeError ''entity_id''
                    | Some eid \<Rightarrow> PermissionError ''User does not have write permission''), s) \<and>
            ingest_file S i f m' auth r s =
              (Inl (PermissionError ''User does not have write permission''), s)) \<and>
         (''write'' \<in> P \<longrightarrow>
            ingest_text S i t m auth r s \<noteq>
              (Inl (PermissionError ''User does not have write permission''), s) \<and>
            ingest_file S i f m' auth r s \<noteq>
              (Inl (PermissionError ''User does not have write permission''), s))"
proof (cases "''write'' \<in> P")
  case True
  then show ?thesis
    using assms passes_guard_ingest_text passes_guard_ingest_file by blast
next
  case False
  then show ?thesis
    using assms
    by (cases "entity_id auth")
       (simp_all add: ingest_text_def ingest_file_def attr_def and_then_def raise_def)
qed

lemma ingest_rejects_reader:
  "ingest_text MemoryService ''d1'' ''abcdef'' None reader None (start empty_world) =
     (Inl (PermissionError ''User does not have write permission''), start empty_world) \<and>
   ingest_file MemoryService ''d1'' upload1 [] reader None (start empty_world) =
     (Inl (PermissionError ''User does not have write permission''), start empty_world)"
  using ingest_guard [of reader "{''read''}" MemoryService "''d1''" "''abcdef''" None None
          "start empty_world" upload1 "[]"]
  by (simp add: reader_def)

lemma persists_raise: "persists S i (raise e)"
  by (simp add: persists_def raise_def)

lemma stored_as_Cons:
  assumes "stored_as S i new D r w" "\<not> is_store c"
  shows "stored_as S i (c # new) D r w"
proof -
  from assms(1) obtain pre objs ids w0 w1 r2 where h:
    "new = pre @ [Store_embeddings objs, Store_document D]"
    "\<forall>c\<in>set pre. \<not> is_store c"
    "\<forall>c\<in>set objs. document_id c = i" "external_id D = i"
    "store_embeddings (vector_store S) objs w0 = (Inr (True, ids), w1)"
    "chunk_ids D = ids"
    "store_document (db S) D w1 = (r2, w)"
    "r = (case r2 of Inl e \<Rightarrow> Inl e
          | Inr stored \<Rightarrow> if stored then Inr D else Inl (Exception ''Failed to store document metadata''))"
    "index_counts_stored_chunks S \<longrightarrow> store_document_keeps_index S \<longrightarrow>
       chunk_count S i w0 = Inr 0 \<longrightarrow> chunk_count S i w = Inr (int (length (chunk_ids D)))"
    unfolding stored_as_def by blast
  show ?thesis
    unfolding stored_as_def
    apply (rule exI [of _ "c # pre"], rule exI [of _ objs], rule exI [of _ ids],
           rule exI [of _ w0], rule exI [of _ w1], rule exI [of _ r2])
    using h assms(2) by simp
qed

lemma persists_await:
  assumes c: "\<not> is_store c"
      and f: "\<And>x. persists S i (f x)"
  shows "persists S i (and_then (await c g) f)"
  unfolding persists_def
proof (intro allI impI)
  fix s r s'
  assume run: "and_then (await c g) f s = (r, s')"
  obtain r1 w1 where g: "g (world s) = (r1, w1)" by (cases "g (world s)")
  let ?s1 = "s\<lparr>world := w1, calls := calls s @ [c]\<rparr>"
  have nc: "Store_document D \<noteq> c" for D using c by (cases c) auto
  show "\<exists>new. calls s' = calls s @ new \<and>
           (\<forall>D. r = Inr D \<longrightarrow> Store_document D \<in> set new) \<and>
           (\<forall>D. Store_document D \<in> set new \<longrightarrow> stored_as S i new D r (world s'))"
  proof (cases r1)
    case (Inl e)
    then have "r = Inl e" "s' = ?s1" using run g by (simp_all add: and_then_def await_def)
    then show ?thesis using nc by (intro exI [of _ "[c]"]) simp
  next
    case (Inr x)
    then have fx: "f x ?s1 = (r, s')" using run g by (simp add: and_then_def await_def)
    from f [of x, unfolded persists_def, rule_format, OF fx] obtain new where n:
      "calls s' = calls ?s1 @ new"
      "\<forall>D. r = Inr D \<longrightarrow> Store_document D \<in> set new"
      "\<forall>D. Store_document D \<in> set new \<longrightarrow> stored_as S i new D r (world s')"
      by blast
    show ?thesis
    proof (intro exI [of _ "c # new"] conjI allI impI)
      show "calls s' = calls s @ c # new" using n(1) by simp
    next
      fix D assume "r = Inr D"
      then show "Store_document D \<in> set (c # new)" using n(2) by simp
    next
      fix D assume "Store_document D \<in> set (c # new)"
      then have "Store_document D \<in> set new" using nc [of D] by auto
      then have "stored_as S i new D r (world s')" using n(3) by blast
      then show "stored_as S i (c # new) D r (world s')" using c by (rule stored_as_Cons)
    qed
  qed
qed

lemma persists_attr:
  assumes "\<And>x. persists S i (f x)"
  shows "persists S i (and_then (attr n v) f)"
  using assms by (cases v) (simp_all add: attr_def persists_raise)

lemma count_after_store:
  assumes "index_counts_stored_chunks S" "store_document_keeps_index S"
      and "chunk_count S i w0 = Inr 0" "\<forall>c\<in>set objs. document_id c = i"
      and "store_embeddings (vector_store S) objs w0 = (Inr (True, ids), w1)"
      and "store_document (db S) D w1 = (r2, w2)"
  shows "chunk_count S i w2 = Inr (int (length ids))"
proof -
  have "filter (\<lambda>c. document_id c = i) objs = objs"
    using assms(4) by (simp add: filter_id_conv)
  moreover have "length ids = length objs"
    using assms(1,5) unfolding index_counts_stored_chunks_def by blast
  moreover have "chunk_count S i w1 = Inr (0 + int (length (filter (\<lambda>c. document_id c = i) objs)))"
    using assms(1,3,5) unfolding index_counts_stored_chunks_def by blast
  moreover have "chunk_count S i w2 = chunk_count S i w1"
    using assms(2,6) unfolding store_document_keeps_index_def by blast
  ultimately show ?thesis by simp
qed

lemma persists_no_document:
  assumes "r = Inl e" and "calls s' = calls s @ [Store_embeddings objs]"
  shows "\<exists>new. calls s' = calls s @ new \<and>
           (\<forall>D. r = Inr D \<longrightarrow> Store_document D \<in> set new) \<and>
           (\<forall>D. Store_document D \<in> set new \<longrightarrow> stored_as S i new D r (world s'))"
  using assms by (intro exI [of _ "[Store_embeddings objs]"]) simp

lemma persists_tail:
  assumes id: "external_id doc = i" and belong: "\<forall>c\<in>set objs. document_id c = i"
  shows "persists S i (and_then (store_chunks_and_doc S objs doc) (\<lambda>(result, doc). ok doc))"
  unfolding persists_def
proof (intro allI impI)
  fix s r s'
  assume run: "and_then (store_chunks_and_doc S objs doc) (\<lambda>(result, doc). ok doc) s = (r, s')"
  obtain r1 w1 where se: "store_embeddings (vector_store S) objs (world s) = (r1, w1)"
    by (cases "store_embeddings (vector_store S) objs (world s)")
  show "\<exists>new. calls s' = calls s @ new \<and>
           (\<forall>D. r = Inr D \<longrightarrow> Store_document D \<in> set new) \<and>
           (\<forall>D. Store_document D \<in> set new \<longrightarrow> stored_as S i new D r (world s'))"
  proof (cases r1)
    case (Inl e)
    then have "r = Inl e" "calls s' = calls s @ [Store_embeddings objs]"
      using run se by (auto simp: store_chunks_and_doc_def and_then_def await_def)
    then show ?thesis by (rule persists_no_document)
  next
    case (Inr p)
    obtain success ids where p: "p = (success, ids)" by (cases p)
    show ?thesis
    proof (cases success)
      case False
      then have "r = Inl (Exception ''Failed to store chunk embeddings'')"
                "calls s' = calls s @ [Store_embeddings objs]"
        using run se Inr p by (auto simp: store_chunks_and_doc_def and_then_def await_def raise_def)
      then show ?thesis by (rule persists_no_document)
    next
      case True
      let ?D = "doc\<lparr>chunk_ids := ids\<rparr>"
      obtain r2 w2 where sd: "store_document (db S) ?D w1 = (r2, w2)"
        by (cases "store_document (db S) ?D w1")
      have se': "store_embeddings (vector_store S) objs (world s) = (Inr (True, ids), w1)"
        using se Inr p True by simp
      have res: "r = (case r2 of Inl e \<Rightarrow> Inl e
                     | Inr stored \<Rightarrow> if stored then Inr ?D
                         else Inl (Exception ''Failed to store document metadata''))"
        and st: "s' = s\<lparr>world := w2, calls := calls s @ [Store_embeddings objs, Store_document ?D]\<rparr>"
        using run se' sd
        by (auto simp: store_chunks_and_doc_def and_then_def await_def raise_def ok_def
              split: sum.splits if_splits)
      have sa: "stored_as S i [Store_embeddings objs, Store_document ?D] ?D r w2"
        unfolding stored_as_def
        apply (rule exI [of _ "[]"], rule exI [of _ objs], rule exI [of _ ids],
               rule exI [of _ "world s"], rule exI [of _ w1], rule exI [of _ r2])
        using id belong se' sd res count_after_store [OF _ _ _ belong se' sd]
        by simp
      show ?thesis
      proof (intro exI [of _ "[Store_embeddings objs, Store_document ?D]"] conjI allI impI)
        show "calls s' = calls s @ [Store_embeddings objs, Store_document ?D]" using st by simp
      next
        fix D assume "r = Inr D"
        then have "D = ?D" using res by (auto split: sum.splits if_splits)
        then show "Store_document D \<in> set [Store_embeddings objs, Store_document ?D]" by simp
      next
        fix D assume "Store_document D \<in> set [Store_embeddings objs, Store_document ?D]"
        then have "D = ?D" by simp
        then show "stored_as S i [Store_embeddings objs, Store_document ?D] D r (world s')"
          using sa st by simp
      qed
    qed
  qed
qed

lemma and_then_assoc: "and_then (and_then m g) f = and_then m (\<lambda>x. and_then (g x) f)"
  by (rule ext) (simp add: and_then_def split: prod.split sum.split)

lemma and_then_if: "and_then (if b then m1 else m2) f = (if b then and_then m1 f else and_then m2 f)"
  by simp

lemma and_then_case_option:
  "and_then (case v of None \<Rightarrow> a | Some x \<Rightarrow> b x) f =
     (case v of None \<Rightarrow> and_then a f | Some x \<Rightarrow> and_then (b x) f)"
  by (cases v) simp_all

lemma and_then_case_prod:
  "and_then (case p of (x, y) \<Rightarrow> b x y) f = (case p of (x, y) \<Rightarrow> and_then (b x y) f)"
  by (cases p) simp

lemmas persists_intros = persists_attr persists_await persists_tail persists_raise

lemmas and_then_normal = and_then_assoc and_then_if and_then_case_option and_then_case_prod

lemma persists_ingest_text: "persists S i (ingest_text S i t m auth rules)"
  unfolding ingest_text_def
  by (auto intro!: persists_intros
        simp: and_then_normal new_Document_def document_id_create_chunk_objects
        split: prod.split option.split)

lemma persists_ingest_file: "persists S i (ingest_file S i f m auth rules)"
  unfolding ingest_file_def
  by (auto intro!: persists_intros
        simp: and_then_normal new_Document_def document_id_create_chunk_objects
        split: prod.split option.split)

lemma parse_abcdef: "memory_parse_file ''abcdef'' c n w = (Inr ([], two_chunks), w)"
  by (simp add: memory_parse_file_def two_chunks_def eval_nat_numeral)

lemma text_ingest_run_eval:
  "text_ingest_run =
     (Inr text_doc,
      \<lparr>world = empty_world
         \<lparr>collection := [\<lparr>owner_id = None, body = text_doc\<lparr>metadata := [(''external_id'', ''d1'')]\<rparr>\<rparr>],
          index := objs1\<rparr>,
       calls = [Split_text ''abcdef'', Embed_for_ingestion two_chunks, Store_embeddings objs1,
                Store_document text_doc],
       active_caches = Map.empty\<rparr>)"
  by (simp add: text_ingest_run_def text_doc_def ingest_text_def store_chunks_and_doc_def mem_defs
      run_defs input_defs rules_given_def split_abcdef objs1_eval create_chunk_objects_def
      enumerate_eq_zip upt_rec to_document_chunk_def chunk_id_def string_of_nat_digit embed_text_def)

lemma file_ingest_run_eval:
  "file_ingest_run =
     (Inr file_doc,
      \<lparr>world = empty_world
         \<lparr>collection := [\<lparr>owner_id = None, body = file_doc\<lparr>metadata := [(''external_id'', ''d1'')]\<rparr>\<rparr>],
          index := objs1, blobs := [(([], ''d1''), ''abcdef'')]\<rparr>,
       calls = [Parse_file ''abcdef'' [] None, Upload_from_base64 (B64 ''abcdef'') ''d1'' None [],
                Embed_for_ingestion two_chunks, Store_embeddings objs1, Store_document file_doc],
       active_caches = Map.empty\<rparr>)"
  by (simp add: file_ingest_run_def file_doc_def upload1_def ingest_file_def store_chunks_and_doc_def
      mem_defs run_defs input_defs rules_given_def parse_abcdef objs1_eval create_chunk_objects_def
      enumerate_eq_zip upt_rec to_document_chunk_def chunk_id_def string_of_nat_digit embed_text_def
      MemoryParser_def)

section \<open>Retrieval\<close>

text \<open>
  C2 at \<open>k = 1\<close> with reranking asked for and no reranker configured: the vector store is
  asked for \<open>10\<close> chunks, returns the two it has, and both are returned to the caller.
\<close>

theorem retrieve_chunks_over_fetch_without_reranker:
  "reranker MemoryService = None \<and>
   map_sum id length (fst over_fetch_run) = Inr 2 \<and>
   calls (snd over_fetch_run) =
     [Embed_for_query ''abcd'', Find_authorized_and_filtered_documents alice None,
      Query_similar [4] 10 [''d1''], Get_document ''d1'' alice, Get_document ''d1'' alice]"
  by (simp add: over_fetch_run_def retrieve_chunks_def mem_defs run_defs input_defs
        embed_text_def similarity_def)

section \<open>Caches\<close>

text \<open>
  C3 on a blob store that keeps bytes at a (bucket, key): \<^verbatim>\<open>create_cache\<close> succeeds and
  stores the state at bucket \<^verbatim>\<open>caches\<close>, key \<^verbatim>\<open>c1_state.pkl\<close>; \<^verbatim>\<open>load_cache\<close> asks
  for key \<^verbatim>\<open>caches/c1_state.pkl\<close> of that bucket, finds nothing, reports failure and
  registers no cache.
\<close>

theorem create_cache_then_load_cache_misses_state:
  "fst cache_created =
     Inr (True, ''Cache created successfully, state stored in bucket `caches` with key `c1_state.pkl`'') \<and>
   blobs (world (snd cache_created)) = [((''caches'', ''c1_state.pkl''), ''hello'')] \<and>
   fst cache_loaded = Inr (Return_dict False ''Failed to load cache c1: caches/caches/c1_state.pkl'') \<and>
   active_caches (snd cache_loaded) ''c1'' = None \<and>
   calls (snd cache_loaded) = calls (snd cache_created) @
     [Get_cache_metadata ''c1'', Download_file ''caches'' ''caches/c1_state.pkl'']"
  by (simp add: cache_loaded_def cache_created_def create_cache_def load_cache_def
        mem_defs run_defs input_defs document_text_def)


section \<open>Outcome of a delete\<close>

text \<open>
  C1, amended. For a document that passes the pre-check (\<^verbatim>\<open>get_document\<close> returns it
  and \<^verbatim>\<open>count_number_of_chunks\<close> returns \<open>n > 0\<close>): when \<^verbatim>\<open>delete_document\<close> returns
  \<^verbatim>\<open>False\<close>, \<^verbatim>\<open>delete_document_and_chunks\<close> returns \<^verbatim>\<open>False\<close> in the world that
  \<^verbatim>\<open>delete_document\<close> left and never calls \<^verbatim>\<open>delete_chunks\<close>; when \<^verbatim>\<open>delete_document\<close>
  returns \<^verbatim>\<open>True\<close>, \<^verbatim>\<open>delete_chunks\<close> is called next and the result is \<^verbatim>\<open>True\<close> exactly
  when the value that \<^verbatim>\<open>delete_chunks\<close> returns equals \<open>n\<close>, in the world that
  \<^verbatim>\<open>delete_chunks\<close> left whichever the result: nothing is rolled back.
\<close>

theorem delete_document_and_chunks_outcome:
  assumes "get_document (db S) i auth (world s) = (Inr (Some d), w1)"
      and "count_number_of_chunks (vector_store S) i w1 = (Inr n, w2)"
      and "0 < n"
      and "delete_document (db S) i auth w2 = (Inr deleted, w3)"
  shows "(\<not> deleted \<longrightarrow>
            delete_document_and_chunks S i auth s =
              (Inr False, s\<lparr>world := w3, calls := calls s @
                 [Get_document i auth, Count_number_of_chunks i, Delete_document i auth]\<rparr>)) \<and>
         (deleted \<longrightarrow>
            (\<forall>m w4. delete_chunks (vector_store S) i w3 = (Inr m, w4) \<longrightarrow>
               delete_document_and_chunks S i auth s =
                 (Inr (m = n), s\<lparr>world := w4, calls := calls s @
                    [Get_document i auth, Count_number_of_chunks i, Delete_document i auth,
                     Delete_chunks i]\<rparr>)))"
  using assms
  by (simp add: delete_document_and_chunks_def and_then_def await_def ok_def)

text \<open>
  The theorem on the PostgreSQL store and the in-memory index: for a document that the
  caller administers, the record and both chunks are deleted; for a document that the
  caller may read and not administer, the delete is refused and \<^verbatim>\<open>delete_chunks\<close> is
  not called.
\<close>

theorem delete_document_and_chunks_outcome_witness:
  "delete_document_and_chunks PostgresService ''d1'' alice (start (world2 (doc1 ''alice'') False)) =
     (Inr True,
      \<lparr>world = (world2 (doc1 ''alice'') False)\<lparr>table := [], index := []\<rparr>,
       calls = [Get_document ''d1'' alice, Count_number_of_chunks ''d1'',
                Delete_document ''d1'' alice, Delete_chunks ''d1''],
       active_caches = Map.empty\<rparr>) \<and>
   delete_document_and_chunks PostgresService ''d1'' alice (start (world2 shared_doc False)) =
     (Inr False,
      \<lparr>world = world2 shared_doc False,
       calls = [Get_document ''d1'' alice, Count_number_of_chunks ''d1'',
                Delete_document ''d1'' alice],
       active_caches = Map.empty\<rparr>)"
proof -
  let ?w = "world2 (doc1 ''alice'') False"
  let ?v = "world2 shared_doc False"
  have g: "get_document (db PostgresService) ''d1'' alice (world (start ?w)) = (Inr (Some (doc1 ''alice'')), ?w)"
    by (simp add: mem_defs run_defs input_defs)
  have c: "count_number_of_chunks (vector_store PostgresService) ''d1'' ?w = (Inr 2, ?w)"
    by (simp add: mem_defs input_defs)
  have d: "delete_document (db PostgresService) ''d1'' alice ?w = (Inr True, ?w\<lparr>table := []\<rparr>)"
    by (simp add: mem_defs input_defs)
  have e: "delete_chunks (vector_store PostgresService) ''d1'' (?w\<lparr>table := []\<rparr>)
             = (Inr 2, ?w\<lparr>table := [], index := []\<rparr>)"
    by (simp add: mem_defs input_defs)
  have g': "get_document (db PostgresService) ''d1'' alice (world (start ?v)) = (Inr (Some shared_doc), ?v)"
    by (simp add: mem_defs run_defs input_defs)
  have c': "count_number_of_chunks (vector_store PostgresService) ''d1'' ?v = (Inr 2, ?v)"
    by (simp add: mem_defs input_defs)
  have d': "delete_document (db PostgresService) ''d1'' alice ?v = (Inr False, ?v)"
    by (simp add: mem_defs input_defs)
  show ?thesis
    using delete_document_and_chunks_outcome [OF g c _ d] e
          delete_document_and_chunks_outcome [OF g' c' _ d']
    by (simp add: start_def)
qed

text \<open>
  C1 as stated fails: on the PostgreSQL store with an index that refuses to delete, the
  document passes the pre-check with two chunks and the call reports failure; afterwards
  the record is gone and both chunks are still indexed: a lookup of the document finds
  nothing and the count is still 2. Neither were the chunks and the record removed, nor
  were both stores left as they were.
\<close>

theorem delete_document_and_chunks_partial_counterexample:
  "fst (get_document (db PostgresService) ''d1'' alice (world2 (doc1 ''alice'') True))
     = Inr (Some (doc1 ''alice'')) \<and>
   fst (count_number_of_chunks (vector_store PostgresService) ''d1'' (world2 (doc1 ''alice'') True))
     = Inr 2 \<and>
   fst partial_delete_run = Inr False \<and>
   table (world (snd partial_delete_run)) = [] \<and>
   index (world (snd partial_delete_run)) = [chunk1 0, chunk1 1] \<and>
   table (world2 (doc1 ''alice'') True) = [doc1 ''alice''] \<and>
   index (world2 (doc1 ''alice'') True) = [chunk1 0, chunk1 1] \<and>
   fst (get_document (db PostgresService) ''d1'' alice (world (snd partial_delete_run))) = Inr None \<and>
   fst (count_number_of_chunks (vector_store PostgresService) ''d1'' (world (snd partial_delete_run)))
     = Inr 2"
  by (simp add: partial_delete_run_def delete_document_and_chunks_def mem_defs run_defs input_defs)

section \<open>Deletion and access\<close>

text \<open>
  C5, amended. On the MongoDB store, when no document of the id is owned by the caller,
  whether because no document has the id or because its owner is someone else,
  \<^verbatim>\<open>delete_document_and_chunks\<close> returns \<^verbatim>\<open>False\<close> after the one lookup, and nothing
  is deleted: the two cases have the same outcome, so a caller cannot tell from it
  whether a document they do not own exists.
\<close>

theorem delete_not_found_and_unauthorized_alike:
  assumes "get_document (db S) = mongo_get_document"
      and "mongo_error (world s) = None"
      and "\<forall>d\<in>set (collection (world s)).
             external_id (body d) = i \<longrightarrow> owner_id d \<noteq> Some (user_id auth)"
  shows "delete_document_and_chunks S i auth s =
           (Inr False, s\<lparr>calls := calls s @ [Get_document i auth]\<rparr>)"
proof -
  have "find (\<lambda>d. external_id (body d) = i \<and> owner_id d = Some (user_id auth))
          (collection (world s)) = None"
    using assms(3) by (auto simp: find_None_iff)
  then show ?thesis
    using assms(1,2)
    by (simp add: delete_document_and_chunks_def mongo_get_document_def and_then_def await_def ok_def)
qed

text \<open>The theorem for the document of another owner, and for an id that no document has.\<close>

theorem delete_not_found_and_unauthorized_alike_witness:
  "get_document (db MemoryService) = mongo_get_document \<and>
   mongo_error (world (start (world1 ''bob'' False))) = None \<and>
   map (\<lambda>d. (external_id (body d), owner_id d)) (collection (world (start (world1 ''bob'' False))))
     = [(''d1'', Some ''bob'')] \<and>
   user_id alice = ''alice'' \<and>
   delete_document_and_chunks MemoryService ''d1'' alice (start (world1 ''bob'' False)) =
     (Inr False, (start (world1 ''bob'' False))\<lparr>calls := [Get_document ''d1'' alice]\<rparr>) \<and>
   delete_document_and_chunks MemoryService ''d2'' alice (start (world1 ''bob'' False)) =
     (Inr False, (start (world1 ''bob'' False))\<lparr>calls := [Get_document ''d2'' alice]\<rparr>)"
proof -
  let ?s = "start (world1 ''bob'' False)"
  have g: "get_document (db MemoryService) = mongo_get_document"
    by (simp add: MemoryService_def MongoDatabase_def)
  have e: "mongo_error (world ?s) = None"
    by (simp add: start_def world1_def)
  have h1: "\<forall>d\<in>set (collection (world ?s)).
              external_id (body d) = ''d1'' \<longrightarrow> owner_id d \<noteq> Some (user_id alice)"
    by (simp add: start_def input_defs)
  have h2: "\<forall>d\<in>set (collection (world ?s)).
              external_id (body d) = ''d2'' \<longrightarrow> owner_id d \<noteq> Some (user_id alice)"
    by (simp add: start_def input_defs)
  have c: "calls ?s = []" by (simp add: start_def)
  have m: "map (\<lambda>d. (external_id (body d), owner_id d)) (collection (world ?s))
             = [(''d1'', Some ''bob'')]"
    by (simp add: start_def input_defs)
  have u: "user_id alice = ''alice''" by (simp add: alice_def)
  show ?thesis
    using delete_not_found_and_unauthorized_alike [OF g e h1]
          delete_not_found_and_unauthorized_alike [OF g e h2] g e c m u
    by simp
qed

text \<open>
  C5 as stated fails: the store holds \<^verbatim>\<open>d1\<close>, owned by another user, and no \<^verbatim>\<open>d2\<close>;
  the outcome of deleting the one is the outcome of deleting the other.
\<close>

theorem delete_not_found_and_unauthorized_counterexample:
  "map (external_id \<circ> body) (collection (world1 ''bob'' False)) = [''d1''] \<and>
   \<not> (fst (delete_document_and_chunks MemoryService ''d1'' alice (start (world1 ''bob'' False))) \<noteq>
       fst (delete_document_and_chunks MemoryService ''d2'' alice (start (world1 ''bob'' False))))"
  by (simp add: delete_document_and_chunks_def mem_defs run_defs input_defs)

section \<open>The permission guard of ingestion\<close>


section \<open>Order of persistence\<close>

text \<open>
  C6. For every run of \<^verbatim>\<open>ingest_text\<close> and of \<^verbatim>\<open>ingest_file\<close>, for every
  implementation of the collaborators: the run only appends calls; a run that returns a
  document has handed that document to the metadata store; and whenever a record \<open>D\<close> is
  handed to the metadata store, this is the last call of the run, it comes straight
  after the one call of \<^verbatim>\<open>store_embeddings\<close> and neither of the two is called before
  (the chunks are persisted first), the chunks stored are chunks of the document,
  \<^verbatim>\<open>store_embeddings\<close> answered \<^verbatim>\<open>True\<close> with exactly the ids that are the
  \<^verbatim>\<open>chunk_ids\<close> of \<open>D\<close>, the world after the run is the one that \<^verbatim>\<open>store_document\<close>
  left when called in the world that \<^verbatim>\<open>store_embeddings\<close> left, the run returns \<open>D\<close>
  when \<^verbatim>\<open>store_document\<close> answered \<^verbatim>\<open>True\<close> and raises when it answered \<^verbatim>\<open>False\<close> or
  raised, and, for an index that counts the chunks it stored and a metadata store that
  keeps the index, the count of the document after the run is the length of the
  \<^verbatim>\<open>chunk_ids\<close> of \<open>D\<close> when it was 0 before the chunks were stored.
\<close>

theorem ingestion_stores_chunks_then_document:
  assumes "ingest_text S i t m auth rules s = (r, s') \<or>
           ingest_file S i f m' auth rules s = (r, s')"
  shows "\<exists>new. calls s' = calls s @ new \<and>
           (\<forall>D. r = Inr D \<longrightarrow> Store_document D \<in> set new) \<and>
           (\<forall>D. Store_document D \<in> set new \<longrightarrow>
              (\<exists>pre objs ids w0 w1 r2.
                 new = pre @ [Store_embeddings objs, Store_document D] \<and>
                 (\<forall>c\<in>set pre. \<not> is_store c) \<and>
                 (\<forall>c\<in>set objs. document_id c = i) \<and> external_id D = i \<and>
                 store_embeddings (vector_store S) objs w0 = (Inr (True, ids), w1) \<and>
                 chunk_ids D = ids \<and>
                 store_document (db S) D w1 = (r2, world s') \<and>
                 r = (case r2 of
                        Inl e \<Rightarrow> Inl e
                      | Inr stored \<Rightarrow>
                          if stored then Inr D
                          else Inl (Exception ''Failed to store document metadata'')) \<and>
                 (index_counts_stored_chunks S \<longrightarrow> store_document_keeps_index S \<longrightarrow>
                  chunk_count S i w0 = Inr 0 \<longrightarrow>
                  chunk_count S i (world s') = Inr (int (length (chunk_ids D))))))"
proof -
  have "\<exists>new. calls s' = calls s @ new \<and>
          (\<forall>D. r = Inr D \<longrightarrow> Store_document D \<in> set new) \<and>
          (\<forall>D. Store_document D \<in> set new \<longrightarrow> stored_as S i new D r (world s'))"
    using assms
  proof
    assume run: "ingest_text S i t m auth rules s = (r, s')"
    show ?thesis by (rule persists_ingest_text [unfolded persists_def, rule_format, OF run])
  next
    assume run: "ingest_file S i f m' auth rules s = (r, s')"
    show ?thesis by (rule persists_ingest_file [unfolded persists_def, rule_format, OF run])
  qed
  then show ?thesis unfolding stored_as_def .
qed

text \<open>
  The theorem on the in-memory index and the MongoDB store, for an ingestion of a text
  and an ingestion of a file: the two chunks are indexed, the collection holds the
  record with their two ids, and the count of the document is 2.
\<close>

theorem ingestion_stores_chunks_then_document_witness:
  "ingest_text MemoryService ''d1'' ''abcdef'' None alice None (start empty_world) =
     (Inr text_doc,
      \<lparr>world = empty_world
         \<lparr>collection := [\<lparr>owner_id = None, body = text_doc\<lparr>metadata := [(''external_id'', ''d1'')]\<rparr>\<rparr>],
          index := objs1\<rparr>,
       calls = [Split_text ''abcdef'', Embed_for_ingestion two_chunks, Store_embeddings objs1,
                Store_document text_doc],
       active_caches = Map.empty\<rparr>) \<and>
   ingest_file MemoryService ''d1'' upload1 [] alice None (start empty_world) =
     (Inr file_doc,
      \<lparr>world = empty_world
         \<lparr>collection := [\<lparr>owner_id = None, body = file_doc\<lparr>metadata := [(''external_id'', ''d1'')]\<rparr>\<rparr>],
          index := objs1, blobs := [(([], ''d1''), ''abcdef'')]\<rparr>,
       calls = [Parse_file ''abcdef'' [] None, Upload_from_base64 (B64 ''abcdef'') ''d1'' None [],
                Embed_for_ingestion two_chunks, Store_embeddings objs1, Store_document file_doc],
       active_caches = Map.empty\<rparr>) \<and>
   chunk_ids text_doc = [''d1-0'', ''d1-1''] \<and> chunk_ids file_doc = [''d1-0'', ''d1-1''] \<and>
   chunk_count MemoryService ''d1'' (world (snd text_ingest_run)) = Inr 2 \<and>
   chunk_count MemoryService ''d1'' (world (snd file_ingest_run)) = Inr 2"
proof -
  have t: "ingest_text MemoryService ''d1'' ''abcdef'' None alice None (start empty_world) =
             (fst text_ingest_run, snd text_ingest_run)"
    by (simp add: text_ingest_run_def)
  have f: "ingest_file MemoryService ''d1'' upload1 [] alice None (start empty_world) =
             (fst file_ingest_run, snd file_ingest_run)"
    by (simp add: file_ingest_run_def)
  have n: "chunk_count MemoryService ''d1'' (world (snd text_ingest_run)) = Inr 2"
          "chunk_count MemoryService ''d1'' (world (snd file_ingest_run)) = Inr 2"
    by (simp_all add: text_ingest_run_eval file_ingest_run_eval chunk_count_def mem_defs
          empty_world_def objs1_eval to_document_chunk_def)
  show ?thesis
    using ingestion_stores_chunks_then_document [OF disjI1 [OF t]]
          ingestion_stores_chunks_then_document [OF disjI2 [OF f]]
          n text_ingest_run_eval file_ingest_run_eval
    by (simp add: text_ingest_run_def file_ingest_run_def text_doc_def file_doc_def)
qed

section \<open>Chunk objects of an ingestion\<close>

text \<open>
  C7, amended. For every successful \<^verbatim>\<open>ingest_text\<close>, the chunk objects handed to the
  vector store are those of \<^verbatim>\<open>_create_chunk_objects\<close> for the chunks the parser
  returned and the embeddings the embedding model returned for them: there are \<open>n\<close> of
  them, \<open>n\<close> the smaller of the two lengths (all chunks when the lengths agree), the
  \<open>j\<close>-th built from the \<open>j\<close>-th chunk and the \<open>j\<close>-th embedding, and their chunk numbers
  are \<open>0, ..., n - 1\<close> in this order.
\<close>

theorem ingest_text_chunk_objects:
  assumes "ingest_text S i t m auth rules s = (Inr D, s')"
  shows "\<exists>pre txt chunks embeddings w0 w1 w2.
           chunks \<noteq> [] \<and>
           split_text (parser S) txt w0 = (Inr chunks, w1) \<and>
           embed_for_ingestion (embedding_model S) chunks w1 = (Inr embeddings, w2) \<and>
           calls s' = pre @ [Split_text txt, Embed_for_ingestion chunks,
                             Store_embeddings (create_chunk_objects i chunks embeddings),
                             Store_document D] \<and>
           length (create_chunk_objects i chunks embeddings) = min (length chunks) (length embeddings) \<and>
           (\<forall>j < min (length chunks) (length embeddings).
              create_chunk_objects i chunks embeddings ! j =
                to_document_chunk (chunks ! j) (int j) (embeddings ! j) i) \<and>
           map chunk_number (create_chunk_objects i chunks embeddings) =
             map int [0..<min (length chunks) (length embeddings)]"
proof -
  from ingest_text_stores_created_chunk_objects [OF assms]
  obtain pre body0 chunks embeddings w0 w1 w2 where
    "chunks \<noteq> []"
    "split_text (parser S) body0 w0 = (Inr chunks, w1)"
    "embed_for_ingestion (embedding_model S) chunks w1 = (Inr embeddings, w2)"
    "calls s' = pre @ [Split_text body0, Embed_for_ingestion chunks,
                       Store_embeddings (create_chunk_objects i chunks embeddings),
                       Store_document D]"
    by blast
  then show ?thesis
    using length_create_chunk_objects [of i chunks embeddings]
          chunk_numbers_create_chunk_objects [of i chunks embeddings]
          nth_create_chunk_objects [of _ chunks embeddings i]
    by (intro exI [of _ pre] exI [of _ body0] exI [of _ chunks] exI [of _ embeddings]
          exI [of _ w0] exI [of _ w1] exI [of _ w2]) simp
qed

text \<open>The theorem for a text of two chunks.\<close>

theorem ingest_text_chunk_objects_witness:
  "fst (ingest_text MemoryService ''d1'' ''abcdef'' None alice None (start empty_world)) =
     Inr (new_Document ''d1'' ''text/plain'' None [] USER ''alice'' []
            \<lparr>system_metadata := [(''content'', ''abcdef'')], chunk_ids := [''d1-0'', ''d1-1'']\<rparr>) \<and>
   (\<exists>pre txt chunks embeddings w0 w1 w2.
      chunks \<noteq> [] \<and>
      split_text (parser MemoryService) txt w0 = (Inr chunks, w1) \<and>
      embed_for_ingestion (embedding_model MemoryService) chunks w1 = (Inr embeddings, w2) \<and>
      calls (snd (ingest_text MemoryService ''d1'' ''abcdef'' None alice None (start empty_world))) =
        pre @ [Split_text txt, Embed_for_ingestion chunks,
               Store_embeddings (create_chunk_objects ''d1'' chunks embeddings),
               Store_document (new_Document ''d1'' ''text/plain'' None [] USER ''alice'' []
                  \<lparr>system_metadata := [(''content'', ''abcdef'')], chunk_ids := [''d1-0'', ''d1-1'']\<rparr>)] \<and>
      length (create_chunk_objects ''d1'' chunks embeddings) = min (length chunks) (length embeddings) \<and>
      map chunk_number (create_chunk_objects ''d1'' chunks embeddings) =
        map int [0..<min (length chunks) (length embeddings)])"
proof (rule conjI)
  show "fst (ingest_text MemoryService ''d1'' ''abcdef'' None alice None (start empty_world)) =
     Inr (new_Document ''d1'' ''text/plain'' None [] USER ''alice'' []
            \<lparr>system_metadata := [(''content'', ''abcdef'')], chunk_ids := [''d1-0'', ''d1-1'']\<rparr>)"
    by (rule arg_cong [where f = fst, OF ingested_abcdef, simplified fst_conv])
next
  from ingest_text_chunk_objects [OF ingested_abcdef]
  obtain pre body0 chunks embeddings w0 w1 w2 where
    "chunks \<noteq> []"
    "split_text (parser MemoryService) body0 w0 = (Inr chunks, w1)"
    "embed_for_ingestion (embedding_model MemoryService) chunks w1 = (Inr embeddings, w2)"
    "calls (snd (ingest_text MemoryService ''d1'' ''abcdef'' None alice None (start empty_world))) =
        pre @ [Split_text body0, Embed_for_ingestion chunks,
               Store_embeddings (create_chunk_objects ''d1'' chunks embeddings),
               Store_document (new_Document ''d1'' ''text/plain'' None [] USER ''alice'' []
                  \<lparr>system_metadata := [(''content'', ''abcdef'')], chunk_ids := [''d1-0'', ''d1-1'']\<rparr>)]"
    "length (create_chunk_objects ''d1'' chunks embeddings) = min (length chunks) (length embeddings)"
    "map chunk_number (create_chunk_objects ''d1'' chunks embeddings) =
        map int [0..<min (length chunks) (length embeddings)]"
    by blast
  then show "\<exists>pre txt chunks embeddings w0 w1 w2.
      chunks \<noteq> [] \<and>
      split_text (parser MemoryService) txt w0 = (Inr chunks, w1) \<and>
      embed_for_ingestion (embedding_model MemoryService) chunks w1 = (Inr embeddings, w2) \<and>
      calls (snd (ingest_text MemoryService ''d1'' ''abcdef'' None alice None (start empty_world))) =
        pre @ [Split_text txt, Embed_for_ingestion chunks,
               Store_embeddings (create_chunk_objects ''d1'' chunks embeddings),
               Store_document (new_Document ''d1'' ''text/plain'' None [] USER ''alice'' []
                  \<lparr>system_metadata := [(''content'', ''abcdef'')], chunk_ids := [''d1-0'', ''d1-1'']\<rparr>)] \<and>
      length (create_chunk_objects ''d1'' chunks embeddings) = min (length chunks) (length embeddings) \<and>
      map chunk_number (create_chunk_objects ''d1'' chunks embeddings) =
        map int [0..<min (length chunks) (length embeddings)]"
    by (intro exI [of _ pre] exI [of _ body0] exI [of _ chunks] exI [of _ embeddings]
          exI [of _ w0] exI [of _ w1] exI [of _ w2]) simp
qed

text \<open>
  C7 as stated fails: the parser returns three chunks, the embedding model two
  embeddings; the ingestion succeeds, and two chunk objects are stored, not three.
\<close>

theorem ingest_text_chunk_objects_counterexample:
  "fst (split_text (parser BatchLimitedService) ''abcdefghij'' empty_world) =
     Inr [\<lparr>content = ''abcd'', chunk_metadata = []\<rparr>, \<lparr>content = ''efgh'', chunk_metadata = []\<rparr>,
          \<lparr>content = ''ij'', chunk_metadata = []\<rparr>] \<and>
   map_sum id chunk_ids (fst truncated_ingest_run) = Inr [''d1-0'', ''d1-1''] \<and>
   map dc_content (index (world (snd truncated_ingest_run))) = [''abcd'', ''efgh''] \<and>
   length (index (world (snd truncated_ingest_run))) \<noteq> 3"
  by (simp add: truncated_ingest_run_def ingest_text_def store_chunks_and_doc_def mem_defs run_defs
      input_defs rules_given_def split_abcdefghij create_chunk_objects_def enumerate_eq_zip upt_rec
      to_document_chunk_def chunk_id_def string_of_nat_digit embed_text_def)

section \<open>Retrieval and scores\<close>

text \<open>
  C8. \<^verbatim>\<open>retrieve_chunks\<close> returns the same result, in the same final state, for any two
  values of \<^verbatim>\<open>min_score\<close>.
\<close>

theorem retrieve_chunks_ignores_min_score:
  "retrieve_chunks S query auth filters k s1 use_reranking st =
   retrieve_chunks S query auth filters k s2 use_reranking st"
  by (simp add: retrieve_chunks_def)

text \<open>
  C9. When the query is embedded and the lookup of the authorized and filtered document
  ids returns the empty list, \<^verbatim>\<open>retrieve_chunks\<close> returns the empty list, no exception,
  and the calls made are the embedding and the lookup: the vector store is not called.
\<close>

theorem retrieve_chunks_no_authorized_documents:
  assumes "embed_for_query (embedding_model S) q (world s) = (Inr e, w1)"
      and "find_authorized_and_filtered_documents (db S) auth f w1 = (Inr [], w2)"
  shows "retrieve_chunks S q auth f k ms ur s =
           (Inr [], s\<lparr>world := w2, calls := calls s @
              [Embed_for_query q, Find_authorized_and_filtered_documents auth f]\<rparr>)"
  using assms by (simp add: retrieve_chunks_def and_then_def await_def ok_def Let_def)

text \<open>The theorem for a caller who owns no document of the store.\<close>

theorem retrieve_chunks_no_authorized_documents_witness:
  "embed_for_query (embedding_model MemoryService) ''abcd'' (world (start (world1 ''bob'' False)))
     = (Inr [4], world1 ''bob'' False) \<and>
   find_authorized_and_filtered_documents (db MemoryService) alice None (world1 ''bob'' False)
     = (Inr [], world1 ''bob'' False) \<and>
   retrieve_chunks MemoryService ''abcd'' alice None 5 0 (Some True) (start (world1 ''bob'' False)) =
     (Inr [], \<lparr>world = world1 ''bob'' False,
               calls = [Embed_for_query ''abcd'', Find_authorized_and_filtered_documents alice None],
               active_caches = Map.empty\<rparr>)"
proof -
  have e: "embed_for_query (embedding_model MemoryService) ''abcd'' (world (start (world1 ''bob'' False)))
             = (Inr [4], world1 ''bob'' False)"
    by (simp add: mem_defs start_def embed_text_def)
  have f: "find_authorized_and_filtered_documents (db MemoryService) alice None (world1 ''bob'' False)
             = (Inr [], world1 ''bob'' False)"
    by (simp add: mem_defs input_defs)
  show ?thesis
    using retrieve_chunks_no_authorized_documents [OF e f, of 5 0 "Some True"] e f
    by (simp add: start_def)
qed

section \<open>Rules without metadata\<close>

text \<open>
  C10. Every call of \<^verbatim>\<open>ingest_text\<close> with a non-empty rules list and \<^verbatim>\<open>metadata\<close>
  left as \<^verbatim>\<open>None\<close> ends in an exception, after no call of a collaborator or after the
  call of the rules processor only: no chunk and no document is stored.
\<close>

theorem ingest_text_rules_without_metadata:
  assumes "rules_given rules \<noteq> []"
  shows "\<exists>e s'. ingest_text S i t None auth rules s = (Inl e, s') \<and>
           (calls s' = calls s \<or> calls s' = calls s @ [Process_rules t (rules_given rules)])"
  using assms
  by (auto simp: ingest_text_def and_then_def await_def attr_def raise_def ok_def
      split: option.splits sum.splits prod.splits if_splits)

text \<open>The theorem for a caller with \<^verbatim>\<open>write\<close> and a rules processor that returns.\<close>

theorem ingest_text_rules_without_metadata_witness:
  "rules_given (Some [''extract title'']) \<noteq> [] \<and>
   ingest_text MemoryService ''d1'' ''abcdef'' None alice (Some [''extract title'']) (start empty_world) =
     (Inl (AttributeError ''update''),
      \<lparr>world = empty_world, calls = [Process_rules ''abcdef'' [''extract title'']],
       active_caches = Map.empty\<rparr>)"
proof -
  have r: "rules_given (Some [''extract title'']) \<noteq> []" by (simp add: rules_given_def)
  have e: "ingest_text MemoryService ''d1'' ''abcdef'' None alice (Some [''extract title'']) (start empty_world) =
     (Inl (AttributeError ''update''),
      \<lparr>world = empty_world, calls = [Process_rules ''abcdef'' [''extract title'']],
       active_caches = Map.empty\<rparr>)"
    by (simp add: ingest_text_def mem_defs run_defs input_defs rules_given_def)
  show ?thesis
    using ingest_text_rules_without_metadata [OF r, of MemoryService "''d1''" "''abcdef''" alice "start empty_world"] r e
    by simp
qed

end
